theory Spec2Isabelle
  imports Complex_Main
begin

section \<open>Numbers\<close>

text \<open>
  The analyzer computes with JavaScript numbers. They are modelled as mathematical reals:
  rounding, overflow to infinity and signed zero are not part of the model. A property that
  may be absent (\<^verbatim>\<open>undefined\<close>) is an \<open>option\<close>; a \<^verbatim>\<open>Date\<close> is its integer number of
  milliseconds since the epoch, and \<^verbatim>\<open>null\<close> is \<open>None\<close>.

  The kinematics functions have a second model, in the section on double-precision
  arithmetic, in which every operation rounds as the code's doubles do. The properties that
  rounding decides (the sign of a difference that is zero in exact arithmetic, the equality
  of two sums taken in different orders) are settled there.
\<close>

definition toRadians :: "real \<Rightarrow> real" where
  "toRadians degrees = degrees * (pi / 180)"

definition toDegrees :: "real \<Rightarrow> real" where
  "toDegrees radians = radians * (180 / pi)"

text \<open>\<^verbatim>\<open>Math.atan2(y, x)\<close>: the angle of the point \<open>(x, y)\<close> in \<open>(-pi, pi]\<close>, 0 at the origin.\<close>

definition atan2 :: "real \<Rightarrow> real \<Rightarrow> real" where
  "atan2 y x =
     (if 0 < x then arctan (y / x)
      else if x < 0 then (if 0 \<le> y then arctan (y / x) + pi else arctan (y / x) - pi)
      else if 0 < y then pi / 2
      else if y < 0 then - (pi / 2)
      else 0)"

text \<open>The remainder operator \<^verbatim>\<open>x % y\<close>: the quotient is truncated towards zero, so the
  result has the sign of \<open>x\<close>.\<close>

definition jsTrunc :: "real \<Rightarrow> int" where
  "jsTrunc q = (if 0 \<le> q then \<lfloor>q\<rfloor> else \<lceil>q\<rceil>)"

definition jsRem :: "real \<Rightarrow> real \<Rightarrow> real" where
  "jsRem x y = x - y * of_int (jsTrunc (x / y))"

text \<open>Coercion of a timestamp to a number: \<^verbatim>\<open>null\<close> becomes 0.\<close>

fun timeNum :: "int option \<Rightarrow> int" where
  "timeNum None = 0"
| "timeNum (Some t) = t"

section \<open>Constants\<close>

definition MAX_REALISTIC_SPEED :: real where "MAX_REALISTIC_SPEED = 100"
definition MIN_MOVEMENT_THRESHOLD :: real where "MIN_MOVEMENT_THRESHOLD = 1"
definition DEFAULT_WIND_SPEED :: real where "DEFAULT_WIND_SPEED = 10"
definition DEFAULT_WIND_DIRECTION :: real where "DEFAULT_WIND_DIRECTION = 180"

section \<open>Data model\<close>

text \<open>A point of \<^verbatim>\<open>gpxData\<close>. Ingestion creates it with the first four fields; the
  kinematics pass assigns \<open>speed_kmh\<close>, \<open>bearing\<close> and \<open>distance_km\<close>; wind interpolation
  assigns the wind fields. For \<open>wind_faced\<close>, \<open>None\<close> also stands for the \<^verbatim>\<open>NaN\<close> that
  arithmetic on an absent property gives.\<close>

record TrackPoint =
  lat :: real
  lon :: real
  elevation :: real
  time :: "int option"
  speed_kmh :: "real option"
  bearing :: "real option"
  distance_km :: "real option"
  wind_speed :: "real option"
  wind_direction :: "real option"
  wind_faced :: "real option"

text \<open>An entry of \<^verbatim>\<open>windData\<close>.\<close>

record WindSample =
  w_time :: int
  w_lat :: real
  w_lon :: real
  w_wind_speed :: real
  w_wind_direction :: real

section \<open>Geodesy\<close>

definition haversineA :: "real \<Rightarrow> real \<Rightarrow> real \<Rightarrow> real \<Rightarrow> real" where
  "haversineA lat1 lon1 lat2 lon2 =
     (let dLat = toRadians (lat2 - lat1);
          dLon = toRadians (lon2 - lon1)
      in sin (dLat / 2) * sin (dLat / 2) +
         cos (toRadians lat1) * cos (toRadians lat2) *
         sin (dLon / 2) * sin (dLon / 2))"

text \<open>In exact arithmetic \<open>a\<close> lies between 0 and 1 and both square roots are defined. In
  doubles the rounded sum can exceed 1 by one unit in the last place for nearly antipodal
  points; the source does not clamp it, and \<^verbatim>\<open>Math.sqrt(1 - a)\<close> is then \<^verbatim>\<open>NaN\<close>. That
  behaviour is in \<open>haversineDistanceD\<close> below, not in this definition.\<close>

definition haversineDistance :: "real \<Rightarrow> real \<Rightarrow> real \<Rightarrow> real \<Rightarrow> real" where
  "haversineDistance lat1 lon1 lat2 lon2 =
     (let R = 6371000;
          a = haversineA lat1 lon1 lat2 lon2;
          c = 2 * atan2 (sqrt a) (sqrt (1 - a))
      in R * c)"

definition calculateBearing :: "real \<Rightarrow> real \<Rightarrow> real \<Rightarrow> real \<Rightarrow> real" where
  "calculateBearing lat1 lon1 lat2 lon2 =
     (let dLon = toRadians (lon2 - lon1);
          lat1Rad = toRadians lat1;
          lat2Rad = toRadians lat2;
          y = sin dLon * cos lat2Rad;
          x = cos lat1Rad * sin lat2Rad - sin lat1Rad * cos lat2Rad * cos dLon;
          bearing = toDegrees (atan2 y x)
      in jsRem (bearing + 360) 360)"

section \<open>Kinematics\<close>

text \<open>\<^verbatim>\<open>calculateSpeed(distance, timeDiff, prevSpeed = 0)\<close>: an absent third argument takes
  the default 0, and \<^verbatim>\<open>prevSpeed || 20\<close> is 20 when \<open>prevSpeed\<close> is 0.\<close>

definition calculateSpeed :: "real \<Rightarrow> real \<Rightarrow> real option \<Rightarrow> real" where
  "calculateSpeed distance timeDiff prevSpeedArg =
     (let prevSpeed = (case prevSpeedArg of None \<Rightarrow> 0 | Some v \<Rightarrow> v)
      in if timeDiff \<le> 0 then prevSpeed
         else if distance \<le> 0 then 0
         else (let speedMs = distance / timeDiff;
                   speedKmh = speedMs * 3.6
               in if speedKmh > MAX_REALISTIC_SPEED
                  then (if prevSpeed \<noteq> 0 then prevSpeed else 20)
                  else speedKmh))"

text \<open>\<^verbatim>\<open>prev.bearing || 0\<close> is 0 when the bearing is absent or 0.\<close>

definition calculatePointBearing :: "TrackPoint \<Rightarrow> TrackPoint \<Rightarrow> real \<Rightarrow> real" where
  "calculatePointBearing prev cur distance =
     (if distance > MIN_MOVEMENT_THRESHOLD
      then calculateBearing (lat prev) (lon prev) (lat cur) (lon cur)
      else (case bearing prev of None \<Rightarrow> 0 | Some b \<Rightarrow> b))"

text \<open>\<^verbatim>\<open>calculatePointMetrics\<close> mutates \<open>curr\<close>; the model returns the updated point.\<close>

definition calculatePointMetrics :: "TrackPoint \<Rightarrow> TrackPoint \<Rightarrow> nat \<Rightarrow> real \<Rightarrow> TrackPoint" where
  "calculatePointMetrics prev cur index cumulativeDistance =
     (let distance = haversineDistance (lat prev) (lon prev) (lat cur) (lon cur);
          cumulativeDistance' = cumulativeDistance + distance;
          timeDiff = real_of_int (timeNum (time cur) - timeNum (time prev)) / 1000
      in cur\<lparr>distance_km := Some (cumulativeDistance' / 1000),
              speed_kmh := Some (calculateSpeed distance timeDiff (speed_kmh prev)),
              bearing := Some (calculatePointBearing prev cur distance)\<rparr>)"

text \<open>The body of the loop of \<^verbatim>\<open>calculateSpeedAndBearing\<close> for \<open>i > 0\<close>: \<open>prev\<close> is the
  point at \<open>i - 1\<close> as this pass has left it. The next value of \<open>cumulativeDistance\<close> is
  \<^verbatim>\<open>curr.distance_km * 1000\<close>, read back from the point just written;
  \<open>calculatePointMetrics\<close> always writes it, so the \<open>None\<close> branch is never taken. The
  read-back returns the running total only in exact arithmetic: in doubles the division by
  1000 and the multiplication by 1000 both round, as \<open>kinematicsLoopD\<close> below has it.\<close>

fun kinematicsLoop :: "TrackPoint \<Rightarrow> nat \<Rightarrow> real \<Rightarrow> TrackPoint list \<Rightarrow> TrackPoint list" where
  "kinematicsLoop prev i cumulativeDistance [] = []"
| "kinematicsLoop prev i cumulativeDistance (cur # rest) =
     (let cur' = calculatePointMetrics prev cur i cumulativeDistance;
          cumulativeDistance' =
            (case distance_km cur' of Some km \<Rightarrow> km * 1000 | None \<Rightarrow> cumulativeDistance)
      in cur' # kinematicsLoop cur' (Suc i) cumulativeDistance' rest)"

fun calculateSpeedAndBearing :: "TrackPoint list \<Rightarrow> TrackPoint list" where
  "calculateSpeedAndBearing [] = []"
| "calculateSpeedAndBearing (first # rest) =
     (let first' = first\<lparr>speed_kmh := Some 0, bearing := Some 0, distance_km := Some 0\<rparr>
      in first' # kinematicsLoop first' 1 0 rest)"

text \<open>\<^verbatim>\<open>calculateTotalDistance\<close>: the sum of the distances of consecutive points, in km.\<close>

fun totalDistanceLoop :: "real \<Rightarrow> TrackPoint list \<Rightarrow> real" where
  "totalDistanceLoop totalDistance (p # q # rest) =
     totalDistanceLoop
       (totalDistance + haversineDistance (lat p) (lon p) (lat q) (lon q)) (q # rest)"
| "totalDistanceLoop totalDistance _ = totalDistance"

definition calculateTotalDistance :: "TrackPoint list \<Rightarrow> real" where
  "calculateTotalDistance gpxData = totalDistanceLoop 0 gpxData / 1000"

section \<open>Wind interpolation\<close>

text \<open>The returned object \<^verbatim>\<open>{ wind_speed, wind_direction }\<close> is a pair. A \<^verbatim>\<open>null\<close>
  target time compares and subtracts as 0.\<close>

definition interpolateBetweenWindPoints :: "WindSample \<Rightarrow> WindSample \<Rightarrow> int option \<Rightarrow> real \<times> real" where
  "interpolateBetweenWindPoints before after targetTime =
     (let totalTime = w_time after - w_time before;
          pointTime = timeNum targetTime - w_time before;
          ratio = (if totalTime > 0 then real_of_int pointTime / real_of_int totalTime else 0)
      in (w_wind_speed before + (w_wind_speed after - w_wind_speed before) * ratio,
          w_wind_direction before + (w_wind_direction after - w_wind_direction before) * ratio))"

text \<open>The loop over \<open>i < windData.length - 1\<close>: the first adjacent pair around the target
  time, or \<^verbatim>\<open>null\<close> for both.\<close>

fun findSurroundingWindData :: "WindSample list \<Rightarrow> int option \<Rightarrow> WindSample option \<times> WindSample option" where
  "findSurroundingWindData (w # w' # rest) targetTime =
     (if w_time w \<le> timeNum targetTime \<and> w_time w' \<ge> timeNum targetTime
      then (Some w, Some w')
      else findSurroundingWindData (w' # rest) targetTime)"
| "findSurroundingWindData _ targetTime = (None, None)"

definition interpolateWindForPoint :: "WindSample list \<Rightarrow> TrackPoint \<Rightarrow> real \<times> real" where
  "interpolateWindForPoint windData gpxPoint =
     (case windData of
        [] \<Rightarrow> (DEFAULT_WIND_SPEED, DEFAULT_WIND_DIRECTION)
      | [w] \<Rightarrow> (w_wind_speed w, w_wind_direction w)
      | w0 # _ \<Rightarrow>
          (case findSurroundingWindData windData (time gpxPoint) of
             (Some before, Some after) \<Rightarrow>
               interpolateBetweenWindPoints before after (time gpxPoint)
           | (before, after) \<Rightarrow>
               (let closest = (case before of Some b \<Rightarrow> b
                               | None \<Rightarrow> (case after of Some a \<Rightarrow> a | None \<Rightarrow> w0))
                in (w_wind_speed closest, w_wind_direction closest))))"

text \<open>The body of the loop of \<^verbatim>\<open>calculateRelativeWind\<close>; a missing operand makes the
  product \<^verbatim>\<open>NaN\<close>.\<close>

definition windComponent :: "TrackPoint \<Rightarrow> real option" where
  "windComponent point =
     (case (wind_direction point, bearing point, wind_speed point) of
        (Some windFromDeg, Some cyclistDirection, Some windSpeed) \<Rightarrow>
          (let relativeAngle = jsRem (windFromDeg - cyclistDirection + 180) 360 - 180
           in Some (windSpeed * cos (toRadians relativeAngle)))
      | _ \<Rightarrow> None)"

definition calculateRelativeWind :: "TrackPoint list \<Rightarrow> TrackPoint list" where
  "calculateRelativeWind gpxData =
     map (\<lambda>point. point\<lparr>wind_faced := windComponent point\<rparr>) gpxData"

definition interpolateWindAlongRoute :: "WindSample list \<Rightarrow> TrackPoint list \<Rightarrow> TrackPoint list" where
  "interpolateWindAlongRoute windData gpxData =
     calculateRelativeWind
       (map (\<lambda>gpxPoint. case interpolateWindForPoint windData gpxPoint of
               (ws, wd) \<Rightarrow> gpxPoint\<lparr>wind_speed := Some ws, wind_direction := Some wd\<rparr>)
            gpxData)"

section \<open>Route statistics\<close>

datatype error =
  NoFileProvided | InvalidFormat | NoPointsFound | NoValidPoints | MissingTimestamps | TypeError

text \<open>A statistic that may be \<^verbatim>\<open>NaN\<close> is an \<open>option\<close>.\<close>

record RouteStatistics =
  totalDistance :: real
  totalTime :: real
  avgSpeed :: real
  avgWindFaced :: "real option"
  maxHeadwind :: "real option"
  maxTailwind :: "real option"
  avgWindSpeed :: "real option"
  headwindPercentage :: real

text \<open>Arithmetic on operands that may be absent or \<^verbatim>\<open>NaN\<close>: the result is \<^verbatim>\<open>NaN\<close>
  as soon as one operand is.\<close>

definition num2 :: "(real \<Rightarrow> real \<Rightarrow> real) \<Rightarrow> real option \<Rightarrow> real option \<Rightarrow> real option" where
  "num2 f a b =
     (case a of None \<Rightarrow> None
      | Some x \<Rightarrow> (case b of None \<Rightarrow> None | Some y \<Rightarrow> Some (f x y)))"

text \<open>\<^verbatim>\<open>values.reduce((sum, w) => sum + w, 0)\<close>\<close>

definition sumValues :: "real option list \<Rightarrow> real option" where
  "sumValues values = foldl (num2 (+)) (Some 0) values"

text \<open>\<^verbatim>\<open>Math.max(...values)\<close> and \<^verbatim>\<open>Math.min(...values)\<close> of the values \<open>v # vs\<close>.\<close>

definition mathMax :: "real option \<Rightarrow> real option list \<Rightarrow> real option" where
  "mathMax v vs = foldl (num2 max) v vs"

definition mathMin :: "real option \<Rightarrow> real option list \<Rightarrow> real option" where
  "mathMin v vs = foldl (num2 min) v vs"

text \<open>The filters \<^verbatim>\<open>s > 0\<close> and \<^verbatim>\<open>w >= 0\<close> are false on an absent value.\<close>

fun positiveSpeed :: "real option \<Rightarrow> real option" where
  "positiveSpeed None = None"
| "positiveSpeed (Some s) = (if s > 0 then Some s else None)"

fun isNonNegative :: "real option \<Rightarrow> bool" where
  "isNonNegative None = False"
| "isNonNegative (Some w) = (w \<ge> 0)"

text \<open>On an empty track \<^verbatim>\<open>this.gpxData[this.gpxData.length - 1].time\<close> reads a property of
  \<^verbatim>\<open>undefined\<close> and throws.\<close>

definition calculateRouteStatistics :: "TrackPoint list \<Rightarrow> error + RouteStatistics" where
  "calculateRouteStatistics gpxData =
     (case gpxData of
        [] \<Rightarrow> Inl TypeError
      | first # rest \<Rightarrow>
          (let speeds = List.map_filter positiveSpeed (map speed_kmh gpxData);
               headValues = map (\<lambda>p. num2 max (Some 0) (wind_faced p)) rest;
               tailValues = map (\<lambda>p. num2 min (Some 0) (wind_faced p)) rest;
               windFacedValues = map wind_faced gpxData;
               windSpeedValues = map wind_speed gpxData
           in Inr \<lparr>totalDistance = calculateTotalDistance gpxData,
                   totalTime = real_of_int (timeNum (time (last gpxData)) - timeNum (time first))
                               / (1000 * 60 * 60),
                   avgSpeed = (if length speeds > 0
                               then foldl (+) 0 speeds / real (length speeds)
                               else 0),
                   avgWindFaced =
                     num2 (/) (sumValues windFacedValues) (Some (real (length windFacedValues))),
                   maxHeadwind = mathMax (num2 max (Some 0) (wind_faced first)) headValues,
                   maxTailwind =
                     map_option abs (mathMin (num2 min (Some 0) (wind_faced first)) tailValues),
                   avgWindSpeed =
                     num2 (/) (sumValues windSpeedValues) (Some (real (length windSpeedValues))),
                   headwindPercentage =
                     real (length (filter isNonNegative windFacedValues))
                     / real (length windFacedValues) * 100\<rparr>))"

section \<open>Ingestion\<close>

text \<open>What the code takes from the platform: \<^verbatim>\<open>parseFloat\<close> (\<open>None\<close> for \<^verbatim>\<open>NaN\<close>),
  \<^verbatim>\<open>new Date(string)\<close> (\<open>None\<close> for an invalid date) and \<^verbatim>\<open>Date.getFullYear\<close>.\<close>

record Platform =
  parseFloat :: "string \<Rightarrow> real option"
  newDate :: "string \<Rightarrow> int option"
  getFullYear :: "int \<Rightarrow> int"

text \<open>A point element of the document: its \<open>lat\<close> and \<open>lon\<close> attributes and the text of
  its \<open>ele\<close> and \<open>time\<close> children, each \<open>None\<close> when missing.\<close>

record RawPoint =
  latAttr :: "string option"
  lonAttr :: "string option"
  eleText :: "string option"
  timeText :: "string option"

record XmlDoc =
  trkpt :: "RawPoint list"
  rtept :: "RawPoint list"
  wpt :: "RawPoint list"

datatype ParsedFile = ParserError | Document XmlDoc

text \<open>The object \<^verbatim>\<open>{ lat, lon, elevation, time }\<close> pushed by \<^verbatim>\<open>extractGPXPoints\<close>.\<close>

definition newPoint :: "real \<Rightarrow> real \<Rightarrow> real \<Rightarrow> int option \<Rightarrow> TrackPoint" where
  "newPoint la lo ele t =
     \<lparr>lat = la, lon = lo, elevation = ele, time = t, speed_kmh = None, bearing = None,
      distance_km = None, wind_speed = None, wind_direction = None, wind_faced = None\<rparr>"

text \<open>\<^verbatim>\<open>parseFloat(point.getAttribute(name))\<close>: a missing attribute parses to \<^verbatim>\<open>NaN\<close>.\<close>

definition parseAttribute :: "Platform \<Rightarrow> string option \<Rightarrow> real option" where
  "parseAttribute pf attr = (case attr of None \<Rightarrow> None | Some s \<Rightarrow> parseFloat pf s)"

text \<open>\<^verbatim>\<open>lat && lon\<close> is falsy when either is 0 or \<^verbatim>\<open>NaN\<close>.\<close>

definition isValidCoordinate :: "real option \<Rightarrow> real option \<Rightarrow> bool" where
  "isValidCoordinate la lo =
     (case (la, lo) of
        (Some x, Some y) \<Rightarrow>
          x \<noteq> 0 \<and> y \<noteq> 0 \<and> x \<ge> - 90 \<and> x \<le> 90 \<and> y \<ge> - 180 \<and> y \<le> 180
      | _ \<Rightarrow> False)"

definition extractElevation :: "Platform \<Rightarrow> RawPoint \<Rightarrow> real" where
  "extractElevation pf point =
     (case eleText point of
        None \<Rightarrow> 0
      | Some s \<Rightarrow> if s = [] then 0 else (case parseFloat pf s of Some v \<Rightarrow> v | None \<Rightarrow> 0))"

text \<open>\<^verbatim>\<open>String.prototype.trim\<close> strips white space and line terminators from both ends. A
  string is a list of 8-bit characters, read as the code points 0 to 255; among these the
  stripped ones are tab, line feed, vertical tab, form feed, carriage return, space and the
  no-break space (160). Text with code points above 255 is not represented.\<close>

definition isWhiteSpace :: "char \<Rightarrow> bool" where
  "isWhiteSpace c = ((of_char c :: nat) \<in> {9, 10, 11, 12, 13, 32, 160})"

definition trim :: "string \<Rightarrow> string" where
  "trim s = rev (dropWhile isWhiteSpace (rev (dropWhile isWhiteSpace s)))"

definition isDigit :: "char \<Rightarrow> bool" where
  "isDigit c = (c \<in> set ''0123456789'')"

text \<open>\<^verbatim>\<open>/^\d{4}-\d{2}-\d{2} \d{2}:\d{2}:\d{2}$/\<close>\<close>

definition matchesSpaceSeparated :: "string \<Rightarrow> bool" where
  "matchesSpaceSeparated s =
     list_all2 (\<lambda>t c. if t = CHR ''d'' then isDigit c else c = t) ''dddd-dd-dd dd:dd:dd'' s"

text \<open>\<^verbatim>\<open>s.replace(" ", "T")\<close> replaces the first space only.\<close>

fun replaceFirstSpace :: "string \<Rightarrow> string" where
  "replaceFirstSpace [] = []"
| "replaceFirstSpace (c # cs) = (if c = CHR '' '' then CHR ''T'' # cs else c # replaceFirstSpace cs)"

definition parseAlternativeTimeFormats :: "Platform \<Rightarrow> string \<Rightarrow> int option" where
  "parseAlternativeTimeFormats pf timeString =
     (if CHR ''T'' \<in> set timeString \<and> CHR ''Z'' \<notin> set timeString \<and> CHR ''+'' \<notin> set timeString
      then newDate pf (timeString @ ''Z'')
      else if matchesSpaceSeparated timeString
      then newDate pf (replaceFirstSpace timeString @ ''Z'')
      else None)"

definition extractTimestamp :: "Platform \<Rightarrow> RawPoint \<Rightarrow> nat \<Rightarrow> int option" where
  "extractTimestamp pf point pointIndex =
     (case timeText point of
        None \<Rightarrow> None
      | Some s \<Rightarrow>
          if s = [] then None
          else (let timeString = trim s
                in case newDate pf timeString of
                     Some t \<Rightarrow> Some t
                   | None \<Rightarrow> parseAlternativeTimeFormats pf timeString))"

text \<open>The selectors \<open>trkpt\<close>, \<open>rtept\<close>, \<open>wpt\<close> are tried in this order; the first that
  finds elements is used.\<close>

definition selectTrackPoints :: "XmlDoc \<Rightarrow> RawPoint list" where
  "selectTrackPoints xmlDoc =
     (if trkpt xmlDoc \<noteq> [] then trkpt xmlDoc
      else if rtept xmlDoc \<noteq> [] then rtept xmlDoc
      else wpt xmlDoc)"

fun extractLoop :: "Platform \<Rightarrow> TrackPoint list \<Rightarrow> RawPoint list \<Rightarrow> TrackPoint list" where
  "extractLoop pf points [] = points"
| "extractLoop pf points (point # rest) =
     (let la = parseAttribute pf (latAttr point);
          lo = parseAttribute pf (lonAttr point)
      in if \<not> isValidCoordinate la lo then extractLoop pf points rest
         else (case (la, lo) of
                 (Some x, Some y) \<Rightarrow>
                   extractLoop pf
                     (points @ [newPoint x y (extractElevation pf point)
                                  (extractTimestamp pf point (length points))])
                     rest
               | _ \<Rightarrow> extractLoop pf points rest))"

definition extractGPXPoints :: "Platform \<Rightarrow> XmlDoc \<Rightarrow> error + TrackPoint list" where
  "extractGPXPoints pf xmlDoc =
     (let trackPoints = selectTrackPoints xmlDoc
      in if trackPoints = [] then Inl NoPointsFound
         else Inr (extractLoop pf [] trackPoints))"

text \<open>The test of \<^verbatim>\<open>points.some(...)\<close>; a stored time is never an invalid date, since
  \<^verbatim>\<open>extractTimestamp\<close> returns \<^verbatim>\<open>null\<close> for one.\<close>

definition hasValidTime :: "Platform \<Rightarrow> TrackPoint \<Rightarrow> bool" where
  "hasValidTime pf p = (case time p of None \<Rightarrow> False | Some t \<Rightarrow> getFullYear pf t > 2000)"

definition validateTimestamps :: "Platform \<Rightarrow> TrackPoint list \<Rightarrow> error + unit" where
  "validateTimestamps pf points =
     (let hasValidTimes = list_ex (hasValidTime pf) points
      in if \<not> hasValidTimes then Inl MissingTimestamps else Inr ())"

text \<open>\<^verbatim>\<open>readGPXFile\<close>: the argument is the parsed file, \<open>None\<close> when no file is given; the
  result is the new \<^verbatim>\<open>gpxData\<close>. The sort compares \<^verbatim>\<open>a.time - b.time\<close>, where \<^verbatim>\<open>null\<close>
  counts as 0, and is stable. The time-range log line calls \<^verbatim>\<open>toISOString\<close> on the times
  of the first and last sorted points and throws when one of them is \<^verbatim>\<open>null\<close>.\<close>

definition readGPXFile :: "Platform \<Rightarrow> ParsedFile option \<Rightarrow> error + TrackPoint list" where
  "readGPXFile pf file =
     (case file of
        None \<Rightarrow> Inl NoFileProvided
      | Some ParserError \<Rightarrow> Inl InvalidFormat
      | Some (Document xmlDoc) \<Rightarrow>
          (case extractGPXPoints pf xmlDoc of
             Inl e \<Rightarrow> Inl e
           | Inr points \<Rightarrow>
               if length points = 0 then Inl NoValidPoints
               else (case validateTimestamps pf points of
                       Inl e \<Rightarrow> Inl e
                     | Inr _ \<Rightarrow>
                         (let gpxData = sort_key (\<lambda>p. timeNum (time p)) points
                          in if time (hd gpxData) = None \<or> time (last gpxData) = None
                             then Inl TypeError
                             else Inr (calculateSpeedAndBearing gpxData)))))"

section \<open>Double-precision arithmetic\<close>

text \<open>
  A second model of the kinematics functions, in which every arithmetic operation returns
  the double nearest to its exact result, ties going to the even significand, as IEEE 754
  prescribes for \<^verbatim>\<open>+\<close>, \<^verbatim>\<open>-\<close>, \<^verbatim>\<open>*\<close>, \<^verbatim>\<open>/\<close> and \<^verbatim>\<open>Math.sqrt\<close>. A double is the real it
  denotes, and \<open>None\<close> is \<^verbatim>\<open>NaN\<close>: every operation propagates it and every comparison with
  it is false. Overflow to infinity, subnormal numbers and the sign of zero are not
  modelled; coordinates, distances and times of a track stay far from these ranges.
\<close>

text \<open>\<open>roundHalfEven y\<close> is the integer nearest to \<open>y\<close>, the even one of the two when \<open>y\<close> lies
  halfway. \<open>roundDouble x\<close> is the nearest multiple of \<open>2 ^ (e - 52)\<close>, where
  \<open>2 ^ e \<le> \<bar>x\<bar> < 2 ^ (e + 1)\<close>: the double nearest to \<open>x\<close>.\<close>

definition roundHalfEven :: "real \<Rightarrow> int" where
  "roundHalfEven y =
     (let f = \<lfloor>y\<rfloor>; r = y - of_int f
      in if r < 1 / 2 then f else if 1 / 2 < r then f + 1 else if even f then f else f + 1)"

definition roundDouble :: "real \<Rightarrow> real" where
  "roundDouble x =
     (if x = 0 then 0
      else (let u = 2 powr (of_int \<lfloor>log 2 \<bar>x\<bar>\<rfloor> - 52)
            in of_int (roundHalfEven (x / u)) * u))"

text \<open>A rounded binary operation, the square root (\<^verbatim>\<open>NaN\<close> on a negative argument), and
  the comparisons \<^verbatim>\<open><=\<close> and \<^verbatim>\<open>>\<close>.\<close>

definition dbl2 :: "(real \<Rightarrow> real \<Rightarrow> real) \<Rightarrow> real option \<Rightarrow> real option \<Rightarrow> real option" where
  "dbl2 f a b = num2 (\<lambda>x y. roundDouble (f x y)) a b"

definition dsqrt :: "real option \<Rightarrow> real option" where
  "dsqrt a =
     (case a of None \<Rightarrow> None
      | Some x \<Rightarrow> if x < 0 then None else Some (roundDouble (sqrt x)))"

definition dle :: "real option \<Rightarrow> real option \<Rightarrow> bool" where
  "dle a b =
     (case a of None \<Rightarrow> False | Some x \<Rightarrow> (case b of None \<Rightarrow> False | Some y \<Rightarrow> x \<le> y))"

definition dgt :: "real option \<Rightarrow> real option \<Rightarrow> bool" where
  "dgt a b =
     (case a of None \<Rightarrow> False | Some x \<Rightarrow> (case b of None \<Rightarrow> False | Some y \<Rightarrow> x > y))"

text \<open>\<^verbatim>\<open>Math.sin\<close>, \<^verbatim>\<open>Math.cos\<close> and \<^verbatim>\<open>Math.atan2\<close> are implementation-approximated: the
  language does not fix their rounding. The model takes them from the engine, as functions
  from doubles to doubles.\<close>

record MathLibrary =
  msin :: "real \<Rightarrow> real"
  mcos :: "real \<Rightarrow> real"
  matan2 :: "real \<Rightarrow> real \<Rightarrow> real"

text \<open>\<^verbatim>\<open>Math.PI\<close>, the double nearest to pi: 884279719003555 / 2 ^ 48.\<close>

definition MATH_PI :: real where
  "MATH_PI = 884279719003555 / 281474976710656"

definition toRadiansD :: "real option \<Rightarrow> real option" where
  "toRadiansD degrees = dbl2 (*) degrees (dbl2 (/) (Some MATH_PI) (Some 180))"

definition toDegreesD :: "real option \<Rightarrow> real option" where
  "toDegreesD radians = dbl2 (*) radians (dbl2 (/) (Some 180) (Some MATH_PI))"

text \<open>\<^verbatim>\<open>haversineDistance\<close>, operation by operation. The product
  \<^verbatim>\<open>cos(..) * cos(..) * sin(..) * sin(..)\<close> associates to the left.\<close>

definition haversineDistanceD ::
  "MathLibrary \<Rightarrow> real option \<Rightarrow> real option \<Rightarrow> real option \<Rightarrow> real option \<Rightarrow> real option" where
  "haversineDistanceD ml lat1 lon1 lat2 lon2 =
     (let R = Some 6371000;
          dLat = toRadiansD (dbl2 (-) lat2 lat1);
          dLon = toRadiansD (dbl2 (-) lon2 lon1);
          a = dbl2 (+)
                (dbl2 (*) (map_option (msin ml) (dbl2 (/) dLat (Some 2)))
                          (map_option (msin ml) (dbl2 (/) dLat (Some 2))))
                (dbl2 (*)
                   (dbl2 (*)
                      (dbl2 (*) (map_option (mcos ml) (toRadiansD lat1))
                                (map_option (mcos ml) (toRadiansD lat2)))
                      (map_option (msin ml) (dbl2 (/) dLon (Some 2))))
                   (map_option (msin ml) (dbl2 (/) dLon (Some 2))));
          c = dbl2 (*) (Some 2) (num2 (matan2 ml) (dsqrt a) (dsqrt (dbl2 (-) (Some 1) a)))
      in dbl2 (*) R c)"

definition calculateBearingD ::
  "MathLibrary \<Rightarrow> real option \<Rightarrow> real option \<Rightarrow> real option \<Rightarrow> real option \<Rightarrow> real option" where
  "calculateBearingD ml lat1 lon1 lat2 lon2 =
     (let dLon = toRadiansD (dbl2 (-) lon2 lon1);
          lat1Rad = toRadiansD lat1;
          lat2Rad = toRadiansD lat2;
          y = dbl2 (*) (map_option (msin ml) dLon) (map_option (mcos ml) lat2Rad);
          x = dbl2 (-)
                (dbl2 (*) (map_option (mcos ml) lat1Rad) (map_option (msin ml) lat2Rad))
                (dbl2 (*)
                   (dbl2 (*) (map_option (msin ml) lat1Rad) (map_option (mcos ml) lat2Rad))
                   (map_option (mcos ml) dLon));
          bearing = toDegreesD (num2 (matan2 ml) y x)
      in dbl2 jsRem (dbl2 (+) bearing (Some 360)) (Some 360))"

text \<open>\<^verbatim>\<open>calculateSpeed\<close>. In the pass the previous speed is always assigned, so the default
  of the parameter never applies and \<open>None\<close> is a \<^verbatim>\<open>NaN\<close> speed; \<^verbatim>\<open>prevSpeed || 20\<close> is 20
  when the previous speed is 0 or \<^verbatim>\<open>NaN\<close>. The three tests are false on \<^verbatim>\<open>NaN\<close>.\<close>

definition calculateSpeedD :: "real option \<Rightarrow> real option \<Rightarrow> real option \<Rightarrow> real option" where
  "calculateSpeedD distance timeDiff prevSpeed =
     (if dle timeDiff (Some 0) then prevSpeed
      else if dle distance (Some 0) then Some 0
      else (let speedMs = dbl2 (/) distance timeDiff;
                speedKmh = dbl2 (*) speedMs (Some (roundDouble 3.6))
            in if dgt speedKmh (Some MAX_REALISTIC_SPEED)
               then (case prevSpeed of
                       None \<Rightarrow> Some 20
                     | Some v \<Rightarrow> if v \<noteq> 0 then Some v else Some 20)
               else speedKmh))"

definition calculatePointBearingD ::
  "MathLibrary \<Rightarrow> TrackPoint \<Rightarrow> TrackPoint \<Rightarrow> real option \<Rightarrow> real option" where
  "calculatePointBearingD ml prev cur distance =
     (if dgt distance (Some MIN_MOVEMENT_THRESHOLD)
      then calculateBearingD ml (Some (lat prev)) (Some (lon prev)) (Some (lat cur)) (Some (lon cur))
      else (case bearing prev of None \<Rightarrow> Some 0 | Some b \<Rightarrow> Some b))"

definition calculatePointMetricsD ::
  "MathLibrary \<Rightarrow> TrackPoint \<Rightarrow> TrackPoint \<Rightarrow> nat \<Rightarrow> real option \<Rightarrow> TrackPoint" where
  "calculatePointMetricsD ml prev cur index cumulativeDistance =
     (let distance =
            haversineDistanceD ml (Some (lat prev)) (Some (lon prev)) (Some (lat cur)) (Some (lon cur));
          cumulativeDistance' = dbl2 (+) cumulativeDistance distance;
          timeDiff =
            dbl2 (/) (Some (real_of_int (timeNum (time cur) - timeNum (time prev)))) (Some 1000)
      in cur\<lparr>distance_km := dbl2 (/) cumulativeDistance' (Some 1000),
              speed_kmh := calculateSpeedD distance timeDiff (speed_kmh prev),
              bearing := calculatePointBearingD ml prev cur distance\<rparr>)"

text \<open>The loop of \<^verbatim>\<open>calculateSpeedAndBearing\<close>: the next running total is the rounded
  product \<^verbatim>\<open>curr.distance_km * 1000\<close>.\<close>

fun kinematicsLoopD ::
  "MathLibrary \<Rightarrow> TrackPoint \<Rightarrow> nat \<Rightarrow> real option \<Rightarrow> TrackPoint list \<Rightarrow> TrackPoint list" where
  "kinematicsLoopD ml prev i cumulativeDistance [] = []"
| "kinematicsLoopD ml prev i cumulativeDistance (cur # rest) =
     (let cur' = calculatePointMetricsD ml prev cur i cumulativeDistance;
          cumulativeDistance' = dbl2 (*) (distance_km cur') (Some 1000)
      in cur' # kinematicsLoopD ml cur' (Suc i) cumulativeDistance' rest)"

fun calculateSpeedAndBearingD :: "MathLibrary \<Rightarrow> TrackPoint list \<Rightarrow> TrackPoint list" where
  "calculateSpeedAndBearingD ml [] = []"
| "calculateSpeedAndBearingD ml (first # rest) =
     (let first' = first\<lparr>speed_kmh := Some 0, bearing := Some 0, distance_km := Some 0\<rparr>
      in first' # kinematicsLoopD ml first' 1 (Some 0) rest)"



section \<open>Auxiliary definitions and example inputs\<close>

text \<open>A point with the three fields of the kinematics pass cleared; used to say that the
  pass reads none of them from the point it is writing.\<close>

definition kinErase :: "TrackPoint \<Rightarrow> TrackPoint" where
  "kinErase p = p\<lparr>speed_kmh := None, bearing := None, distance_km := None\<rparr>"


text \<open>Three points heading north in a wind of 20 km/h that comes from the north, from the
  south and from the east.\<close>

definition canonicalWindTrack :: "TrackPoint list" where
  "canonicalWindTrack =
     map (\<lambda>wd. newPoint 48 9 0 (Some 1714557600000)
                 \<lparr>bearing := Some 0, wind_speed := Some 20, wind_direction := Some wd\<rparr>)
       [0, 180, 90]"

text \<open>Two wind samples thirty minutes apart, as the sampling loop produces for a ride of
  forty-five minutes, and a point of that ride recorded after the second sample.\<close>

definition twoSamples :: "WindSample list" where
  "twoSamples =
     [\<lparr>w_time = 1714557600000, w_lat = 48, w_lon = 9, w_wind_speed = 5, w_wind_direction = 90\<rparr>,
      \<lparr>w_time = 1714559400000, w_lat = 48.1, w_lon = 9, w_wind_speed = 15,
       w_wind_direction = 270\<rparr>]"

definition latePoint :: TrackPoint where
  "latePoint = newPoint 48.15 9 0 (Some 1714560300000)"

text \<open>Three points at rest, facing 12 km/h of headwind, 7 km/h of tailwind and no wind.\<close>

definition statsTrack :: "TrackPoint list" where
  "statsTrack =
     map (\<lambda>wf. newPoint 48 9 0 (Some 1714557600000)
                 \<lparr>speed_kmh := Some 0, wind_speed := Some 12, wind_faced := Some wf\<rparr>)
       [12, - 7, 0]"

text \<open>An instance of the platform functions that knows a few literals, to run ingestion on
  example documents; the year is counted in mean Gregorian years of 31556952000 ms.\<close>

definition examplePlatform :: Platform where
  "examplePlatform =
     \<lparr>parseFloat = (\<lambda>s. if s = ''0'' then Some 0
                         else if s = ''48.5'' then Some 48.5
                         else if s = ''9.25'' then Some 9.25
                         else None),
      newDate = (\<lambda>s. if s = ''2024-05-01T10:00:00Z'' then Some 1714557600000 else None),
      getFullYear = (\<lambda>t. 1970 + t div 31556952000)\<rparr>"

text \<open>A document with one track point on the equator; one with five track points that have
  coordinates and no time element; one with a single timed track point; and one whose only
  track point has no \<open>lat\<close> attribute.\<close>

definition equatorDoc :: XmlDoc where
  "equatorDoc =
     \<lparr>trkpt = [\<lparr>latAttr = Some ''0'', lonAttr = Some ''9.25'', eleText = None,
                timeText = Some ''2024-05-01T10:00:00Z''\<rparr>],
      rtept = [], wpt = []\<rparr>"

definition noTimeDoc :: XmlDoc where
  "noTimeDoc =
     \<lparr>trkpt = replicate 5 \<lparr>latAttr = Some ''48.5'', lonAttr = Some ''9.25'', eleText = None,
                            timeText = None\<rparr>,
      rtept = [], wpt = []\<rparr>"

definition timedDoc :: XmlDoc where
  "timedDoc =
     \<lparr>trkpt = [\<lparr>latAttr = Some ''48.5'', lonAttr = Some ''9.25'', eleText = None,
                timeText = Some ''2024-05-01T10:00:00Z''\<rparr>],
      rtept = [], wpt = []\<rparr>"

definition noLatDoc :: XmlDoc where
  "noLatDoc =
     \<lparr>trkpt = [\<lparr>latAttr = None, lonAttr = Some ''9.25'', eleText = None,
                timeText = Some ''2024-05-01T10:00:00Z''\<rparr>],
      rtept = [], wpt = []\<rparr>"


text \<open>The sine, cosine and arc tangent of an engine at the arguments that the tracks below
  reach: the doubles that the fdlibm algorithms compute there, which are also those of
  glibc. Elsewhere the function returns the double nearest to the exact value.\<close>

definition engineMath :: MathLibrary where
  "engineMath =
     \<lparr>msin = (\<lambda>x. if x = (- (884279719003555 / 562949953421312)) then - 1
               else if x = (- (5811879326499809 / 9007199254740992)) then - (5416900593495557 / 9007199254740992)
               else if x = 0 then 0
               else if x = (3863477044307945 / 36893488147419103232) then 7726954074493301 / 73786976294838206464
               else if x = (2897607783230959 / 18446744073709551616) then 5795215542630049 / 36893488147419103232
               else roundDouble (sin x)),
      mcos = (\<lambda>x. if x = (- (5811879326499809 / 9007199254740992)) then 1799076609937619 / 2251799813685248
               else if x = (5811879326499809 / 9007199254740992) then 1799076609937619 / 2251799813685248
               else if x = (3772926801081835 / 4503599627370496) then 753374087364987 / 1125899906842624
               else if x = (7548683297264481 / 9007199254740992) then 3012444764131237 / 4503599627370496
               else if x = (3775284880332511 / 4503599627370496) then 376467942757907 / 562949953421312
               else roundDouble (cos x)),
      matan2 = (\<lambda>y x. if y = 0 \<and> x = 1 then 0
               else if y = (7726954074493301 / 73786976294838206464) \<and> x = (1125899900669187 / 1125899906842624) then 3863477044307945 / 36893488147419103232
               else if y = (5795215542630049 / 36893488147419103232) \<and> x = (9007199143619125 / 9007199254740992) then 2897607783230959 / 18446744073709551616
               else roundDouble (atan2 y x))\<rparr>"

text \<open>Two fixes ten seconds apart that are nearly antipodal, \<open>(36.97, 10)\<close> and
  \<open>(-36.97, -170)\<close>. A coordinate is what \<^verbatim>\<open>parseFloat\<close> returns, the double nearest to the
  decimal numeral.\<close>

definition antipodalTrack :: "TrackPoint list" where
  "antipodalTrack =
     [newPoint (roundDouble (3697 / 100)) 10 0 (Some 1714557600000),
      newPoint (- roundDouble (3697 / 100)) (- 170) 0 (Some 1714557610000)]"



section \<open>Properties of the geodesy functions\<close>

lemma sin_sq_le_one: "(sin (x::real))\<^sup>2 \<le> 1"
  by (simp add: sin_squared_eq)

text \<open>The quantity under the square roots of \<open>haversineDistance\<close> lies between 0 and 1 for
  all arguments, so neither root is taken of a negative number.\<close>

lemma haversineA_bounds:
  "0 \<le> haversineA lat1 lon1 lat2 lon2 \<and> haversineA lat1 lon1 lat2 lon2 \<le> 1"
proof -
  define u where "u = toRadians lat1"
  define v where "v = toRadians lat2"
  define S where "S = (sin ((v - u) / 2))\<^sup>2"
  define T where "T = (sin (toRadians (lon2 - lon1) / 2))\<^sup>2"
  define C where "C = cos u * cos v"
  have dl: "toRadians (lat2 - lat1) = v - u"
    by (simp add: toRadians_def u_def v_def left_diff_distrib)
  have a: "haversineA lat1 lon1 lat2 lon2 = S + C * T"
    by (simp add: haversineA_def Let_def dl S_def T_def C_def u_def v_def power2_eq_square)
  have S01: "0 \<le> S" "S \<le> 1" and T01: "0 \<le> T" "T \<le> 1"
    by (simp_all add: S_def T_def sin_sq_le_one)
  have "2 * ((v - u) / 2) = v - u" by simp
  then have c1: "cos (v - u) = 1 - 2 * S"
    using cos_double_sin [of "(v - u) / 2"] by (simp only: S_def)
  have c2: "C = (cos (u - v) + cos (u + v)) / 2"
    unfolding C_def by (rule cos_times_cos)
  have c3: "cos (u - v) = cos (v - u)"
    using cos_minus [of "v - u"] by simp
  have c4: "- 1 \<le> cos (u + v)" "cos (u + v) \<le> 1" by simp_all
  have c5: "2 * C = 1 - 2 * S + cos (u + v)" using c1 c2 c3 by simp
  have Clo: "- S \<le> C" using c5 c4(1) by linarith
  have Chi: "C \<le> 1 - S" using c5 c4(2) by linarith
  have lo: "(- S) * T \<le> C * T" using Clo T01(1) by (rule mult_right_mono)
  have "0 \<le> S * (1 - T)" using S01 T01 by simp
  with lo have lower: "0 \<le> S + C * T" by (simp add: algebra_simps)
  have "C * T \<le> (1 - S) * T" using Chi T01(1) by (rule mult_right_mono)
  moreover have "(1 - S) * T \<le> 1 - S" using S01 T01 by (simp add: mult_left_le)
  ultimately have upper: "S + C * T \<le> 1" by simp
  show ?thesis unfolding a using lower upper by simp
qed

lemma atan2_nonneg: "0 \<le> y \<Longrightarrow> 0 \<le> atan2 y x"
proof -
  assume y: "0 \<le> y"
  have "- (pi / 2) < arctan (y / x)" using arctan_bounded by blast
  then have "0 \<le> arctan (y / x) + pi" using pi_gt_zero by linarith
  then show ?thesis using y by (auto simp: atan2_def zero_le_divide_iff)
qed

lemma haversineDistance_nonneg: "0 \<le> haversineDistance lat1 lon1 lat2 lon2"
  by (simp add: haversineDistance_def Let_def atan2_nonneg haversineA_bounds)


lemma haversine_same: "haversineDistance la lo la lo = 0"
  by (simp add: haversineDistance_def haversineA_def Let_def toRadians_def atan2_def)

section \<open>Properties of the kinematics pass\<close>

lemma metrics_fields [simp]:
  "lat (calculatePointMetrics prev cur i c) = lat cur"
  "lon (calculatePointMetrics prev cur i c) = lon cur"
  "time (calculatePointMetrics prev cur i c) = time cur"
  "distance_km (calculatePointMetrics prev cur i c) =
     Some ((c + haversineDistance (lat prev) (lon prev) (lat cur) (lon cur)) / 1000)"
  "speed_kmh (calculatePointMetrics prev cur i c) =
     Some (calculateSpeed (haversineDistance (lat prev) (lon prev) (lat cur) (lon cur))
            (real_of_int (timeNum (time cur) - timeNum (time prev)) / 1000) (speed_kmh prev))"
  by (simp_all add: calculatePointMetrics_def Let_def)

lemma kinematicsLoop_Cons:
  "kinematicsLoop prev i c (cur # rest) =
     calculatePointMetrics prev cur i c #
     kinematicsLoop (calculatePointMetrics prev cur i c) (Suc i)
       (c + haversineDistance (lat prev) (lon prev) (lat cur) (lon cur)) rest"
proof -
  have e: "(c + d) / 1000 * 1000 = c + d" for d :: real by simp
  show ?thesis
    by (simp only: kinematicsLoop.simps Let_def metrics_fields(4) option.case e)
qed

lemma calculateSpeedAndBearing_Cons:
  "calculateSpeedAndBearing (first # rest) =
     first\<lparr>speed_kmh := Some 0, bearing := Some 0, distance_km := Some 0\<rparr> #
     kinematicsLoop (first\<lparr>speed_kmh := Some 0, bearing := Some 0, distance_km := Some 0\<rparr>)
       (Suc 0) 0 rest"
  by (simp add: Let_def)

lemma length_kinematicsLoop [simp]: "length (kinematicsLoop prev i c cs) = length cs"
  by (induction cs arbitrary: prev i c) (simp_all add: kinematicsLoop_Cons del: kinematicsLoop.simps(2))

lemma length_calculateSpeedAndBearing [simp]:
  "length (calculateSpeedAndBearing gpxData) = length gpxData"
  by (cases gpxData) (simp_all add: Let_def)

lemma kinematicsLoop_distances:
  "\<exists>ds. map distance_km (kinematicsLoop prev i c cs) = map Some ds \<and> sorted ds \<and>
        (\<forall>d \<in> set ds. c / 1000 \<le> d)"
proof (induction cs arbitrary: prev i c)
  case Nil
  show ?case by simp
next
  case (Cons cur rest)
  define d where "d = haversineDistance (lat prev) (lon prev) (lat cur) (lon cur)"
  define cur' where "cur' = calculatePointMetrics prev cur i c"
  have d0: "0 \<le> d" unfolding d_def by (rule haversineDistance_nonneg)
  have km: "distance_km cur' = Some ((c + d) / 1000)" by (simp add: cur'_def d_def)
  obtain ds where ds: "map distance_km (kinematicsLoop cur' (Suc i) (c + d) rest) = map Some ds"
      "sorted ds" "\<forall>x \<in> set ds. (c + d) / 1000 \<le> x"
    using Cons.IH by blast
  have loop: "kinematicsLoop prev i c (cur # rest) = cur' # kinematicsLoop cur' (Suc i) (c + d) rest"
    unfolding cur'_def d_def by (rule kinematicsLoop_Cons)
  note ge = ds(3)
  have "map distance_km (kinematicsLoop prev i c (cur # rest)) = map Some (((c + d) / 1000) # ds)"
    unfolding loop by (simp only: list.map km ds(1))
  moreover have "sorted (((c + d) / 1000) # ds)" using ds(2) ge by simp
  moreover have "\<forall>x \<in> set (((c + d) / 1000) # ds). c / 1000 \<le> x"
  proof
    fix x assume "x \<in> set (((c + d) / 1000) # ds)"
    then have "(c + d) / 1000 \<le> x" using ge by auto
    moreover have "c / 1000 \<le> (c + d) / 1000" using d0 by simp
    ultimately show "c / 1000 \<le> x" by linarith
  qed
  ultimately show ?case by blast
qed

text \<open>In exact arithmetic the cumulative distances are non-decreasing along the track and
  start at 0: each step adds a haversine distance, which is then never negative. In doubles
  this fails where the haversine distance is \<^verbatim>\<open>NaN\<close>, as shown for the nearly antipodal track below.\<close>

lemma distance_km_monotonic_exact:
  "\<exists>ds. map distance_km (calculateSpeedAndBearing gpxData) = map Some ds \<and> sorted ds \<and>
        (gpxData \<noteq> [] \<longrightarrow> ds ! 0 = 0)"
proof (cases gpxData)
  case Nil
  then show ?thesis by simp
next
  case (Cons first rest)
  define first' where "first' = first\<lparr>speed_kmh := Some 0, bearing := Some 0, distance_km := Some 0\<rparr>"
  obtain ds where ds: "map distance_km (kinematicsLoop first' (Suc 0) 0 rest) = map Some ds"
      "sorted ds" "\<forall>x \<in> set ds. 0 / 1000 \<le> x"
    using kinematicsLoop_distances [of first' "Suc 0" 0 rest] by blast
  have out: "calculateSpeedAndBearing gpxData = first' # kinematicsLoop first' (Suc 0) 0 rest"
    unfolding Cons first'_def by (rule calculateSpeedAndBearing_Cons)
  have "distance_km first' = Some 0" by (simp add: first'_def)
  then have "map distance_km (calculateSpeedAndBearing gpxData) = map Some (0 # ds)"
    unfolding out by (simp only: list.map ds(1))
  moreover have "sorted (0 # ds)" using ds(2,3) by simp
  moreover have "(0 # ds) ! 0 = 0" by simp
  ultimately show ?thesis by blast
qed




lemma metrics_kinErase:
  "calculatePointMetrics prev cur i c = calculatePointMetrics prev (kinErase cur) j c"
  by (simp add: calculatePointMetrics_def calculatePointBearing_def kinErase_def Let_def)

lemma kinErase_metrics [simp]: "kinErase (calculatePointMetrics prev cur i c) = kinErase cur"
  by (simp add: calculatePointMetrics_def kinErase_def Let_def)

lemma kinematicsLoop_erased:
  "kinematicsLoop prev i c cs = kinematicsLoop prev j c (map kinErase cs)"
proof (induction cs arbitrary: prev i j c)
  case Nil
  show ?case by simp
next
  case (Cons cur rest)
  have m: "calculatePointMetrics prev (kinErase cur) j c = calculatePointMetrics prev cur i c"
    by (rule metrics_kinErase [symmetric])
  have l: "lat (kinErase cur) = lat cur" "lon (kinErase cur) = lon cur"
    by (simp_all add: kinErase_def)
  show ?case
    by (simp only: list.map kinematicsLoop_Cons m l Cons.IH [of _ "Suc i" _ "Suc j"])
qed

lemma kinErase_kinematicsLoop: "map kinErase (kinematicsLoop prev i c cs) = map kinErase cs"
  by (induction cs arbitrary: prev i c)
     (simp_all add: kinematicsLoop_Cons del: kinematicsLoop.simps(2))

text \<open>Claim C6: running the kinematics pass on its own output changes nothing: every point
  keeps its cumulative distance, speed and bearing, as it keeps every other field. The track
  need not be ordered by time.\<close>

theorem calculateSpeedAndBearing_idempotent:
  "calculateSpeedAndBearing (calculateSpeedAndBearing gpxData) = calculateSpeedAndBearing gpxData"
proof (cases gpxData)
  case Nil
  then show ?thesis by simp
next
  case (Cons first rest)
  define first' where "first' = first\<lparr>speed_kmh := Some 0, bearing := Some 0, distance_km := Some 0\<rparr>"
  define L where "L = kinematicsLoop first' (Suc 0) 0 rest"
  have out: "calculateSpeedAndBearing gpxData = first' # L"
    unfolding Cons first'_def L_def by (rule calculateSpeedAndBearing_Cons)
  have again: "first'\<lparr>speed_kmh := Some 0, bearing := Some 0, distance_km := Some 0\<rparr> = first'"
    by (simp add: first'_def)
  have "kinematicsLoop first' (Suc 0) 0 L = kinematicsLoop first' (Suc 0) 0 (map kinErase L)"
    by (rule kinematicsLoop_erased)
  also have "map kinErase L = map kinErase rest"
    unfolding L_def by (rule kinErase_kinematicsLoop)
  also have "kinematicsLoop first' (Suc 0) 0 (map kinErase rest) = L"
    unfolding L_def by (rule kinematicsLoop_erased [symmetric])
  finally have "kinematicsLoop first' (Suc 0) 0 L = L" .
  then show ?thesis
    unfolding out by (simp only: calculateSpeedAndBearing_Cons again)
qed

lemma totalDistanceLoop_head:
  "lat p = lat q \<Longrightarrow> lon p = lon q \<Longrightarrow>
   totalDistanceLoop acc (p # rest) = totalDistanceLoop acc (q # rest)"
  by (cases rest) simp_all

lemma kinematicsLoop_last_distance:
  "cs \<noteq> [] \<Longrightarrow>
   distance_km (last (kinematicsLoop prev i c cs)) = Some (totalDistanceLoop c (prev # cs) / 1000)"
proof (induction cs arbitrary: prev i c)
  case Nil
  then show ?case by simp
next
  case (Cons cur rest)
  define d where "d = haversineDistance (lat prev) (lon prev) (lat cur) (lon cur)"
  define cur' where "cur' = calculatePointMetrics prev cur i c"
  have loop: "kinematicsLoop prev i c (cur # rest) = cur' # kinematicsLoop cur' (Suc i) (c + d) rest"
    unfolding cur'_def d_def by (rule kinematicsLoop_Cons)
  have td: "totalDistanceLoop c (prev # cur # rest) = totalDistanceLoop (c + d) (cur # rest)"
    by (simp add: d_def)
  show ?case
  proof (cases "rest = []")
    case True
    then show ?thesis unfolding loop td by (simp add: cur'_def d_def)
  next
    case False
    then have "kinematicsLoop cur' (Suc i) (c + d) rest \<noteq> []"
      by (cases rest) (simp_all add: Let_def)
    then have "last (kinematicsLoop prev i c (cur # rest)) =
        last (kinematicsLoop cur' (Suc i) (c + d) rest)"
      unfolding loop by simp
    also have "distance_km \<dots> = Some (totalDistanceLoop (c + d) (cur' # rest) / 1000)"
      using Cons.IH [OF False] .
    also have "totalDistanceLoop (c + d) (cur' # rest) = totalDistanceLoop (c + d) (cur # rest)"
      by (rule totalDistanceLoop_head) (simp_all add: cur'_def)
    finally show ?thesis unfolding td .
  qed
qed

text \<open>In exact arithmetic the cumulative distance that the pass leaves on the last point is
  the total of \<^verbatim>\<open>calculateTotalDistance\<close>: the two add the same distances, and the
  conversion to kilometres and back loses nothing. What remains of this in doubles is
  shown in the section on the double-precision model.\<close>

lemma total_distance_agrees_exact:
  "gpxData \<noteq> [] \<Longrightarrow>
   distance_km (last (calculateSpeedAndBearing gpxData)) = Some (calculateTotalDistance gpxData)"
proof (cases gpxData)
  case Nil
  assume "gpxData \<noteq> []"
  with Nil show ?thesis by simp
next
  case (Cons first rest)
  define first' where "first' = first\<lparr>speed_kmh := Some 0, bearing := Some 0, distance_km := Some 0\<rparr>"
  have out: "calculateSpeedAndBearing gpxData = first' # kinematicsLoop first' (Suc 0) 0 rest"
    unfolding Cons first'_def by (rule calculateSpeedAndBearing_Cons)
  show ?thesis
  proof (cases "rest = []")
    case True
    then show ?thesis
      unfolding out by (simp add: Cons first'_def calculateTotalDistance_def)
  next
    case False
    then have ne: "kinematicsLoop first' (Suc 0) 0 rest \<noteq> []"
      by (cases rest) (simp_all add: Let_def)
    have "distance_km (last (kinematicsLoop first' (Suc 0) 0 rest)) =
        Some (totalDistanceLoop 0 (first' # rest) / 1000)"
      using kinematicsLoop_last_distance [OF False] .
    also have "totalDistanceLoop 0 (first' # rest) = totalDistanceLoop 0 (first # rest)"
      by (rule totalDistanceLoop_head) (simp_all add: first'_def)
    finally show ?thesis
      unfolding out using ne by (simp add: Cons calculateTotalDistance_def)
  qed
qed










section \<open>Properties of the wind computation\<close>

lemma cos_relative_angle:
  "cos (toRadians (jsRem (x + 180) 360 - 180)) = cos (toRadians x)"
proof -
  define k where "k = jsTrunc ((x + 180) / 360)"
  have "toRadians (jsRem (x + 180) 360 - 180) = toRadians x - (2 * pi) * of_int k"
    by (simp add: jsRem_def toRadians_def k_def algebra_simps)
  then show ?thesis by (simp only: cos_diff cos_int_2pin sin_int_2pin)
qed

text \<open>Claim C1: for a point with a bearing, a wind speed and a wind direction, the wind
  faced is the wind speed times the cosine of the angle between wind direction and bearing;
  heading north in 20 km/h of wind it is 20 for wind from the north, -20 for wind from the
  south and 0 for wind from the east. Over the reals the crosswind value is exactly 0.\<close>

theorem wind_faced_formula:
  assumes "i < length gpxData"
    and "bearing (gpxData ! i) = Some b"
    and "wind_speed (gpxData ! i) = Some ws"
    and "wind_direction (gpxData ! i) = Some wd"
  shows "wind_faced (calculateRelativeWind gpxData ! i) = Some (ws * cos (toRadians (wd - b))) \<and>
    (b = 0 \<and> ws = 20 \<longrightarrow>
       (wd = 0 \<longrightarrow> wind_faced (calculateRelativeWind gpxData ! i) = Some 20) \<and>
       (wd = 180 \<longrightarrow> wind_faced (calculateRelativeWind gpxData ! i) = Some (- 20)) \<and>
       (wd = 90 \<longrightarrow> wind_faced (calculateRelativeWind gpxData ! i) = Some 0))"
proof -
  have "wind_faced (calculateRelativeWind gpxData ! i) = windComponent (gpxData ! i)"
    using assms(1) by (simp add: calculateRelativeWind_def)
  also have "\<dots> = Some (ws * cos (toRadians (jsRem (wd - b + 180) 360 - 180)))"
    by (simp add: windComponent_def assms(2-4))
  also have "\<dots> = Some (ws * cos (toRadians (wd - b)))"
    by (simp only: cos_relative_angle)
  finally have main: "wind_faced (calculateRelativeWind gpxData ! i) =
      Some (ws * cos (toRadians (wd - b)))" .
  have "cos (toRadians 0) = 1" "cos (toRadians 180) = - 1" "cos (toRadians 90) = 0"
    by (simp_all add: toRadians_def)
  then show ?thesis unfolding main by simp
qed

theorem wind_faced_formula_witness:
  "wind_faced (calculateRelativeWind canonicalWindTrack ! 0) = Some 20 \<and>
   wind_faced (calculateRelativeWind canonicalWindTrack ! 1) = Some (- 20) \<and>
   wind_faced (calculateRelativeWind canonicalWindTrack ! 2) = Some 0"
proof -
  have len: "0 < length canonicalWindTrack" "1 < length canonicalWindTrack"
      "2 < length canonicalWindTrack"
    by (simp_all add: canonicalWindTrack_def)
  have north: "bearing (canonicalWindTrack ! 0) = Some 0"
      "wind_speed (canonicalWindTrack ! 0) = Some 20"
      "wind_direction (canonicalWindTrack ! 0) = Some 0"
    by (simp_all add: canonicalWindTrack_def newPoint_def)
  have south: "bearing (canonicalWindTrack ! 1) = Some 0"
      "wind_speed (canonicalWindTrack ! 1) = Some 20"
      "wind_direction (canonicalWindTrack ! 1) = Some 180"
    by (simp_all add: canonicalWindTrack_def newPoint_def)
  have east: "bearing (canonicalWindTrack ! 2) = Some 0"
      "wind_speed (canonicalWindTrack ! 2) = Some 20"
      "wind_direction (canonicalWindTrack ! 2) = Some 90"
    by (simp_all add: canonicalWindTrack_def newPoint_def)
  have "wind_faced (calculateRelativeWind canonicalWindTrack ! 0) = Some 20"
    using wind_faced_formula [OF len(1) north] by (simp add: toRadians_def)
  moreover have "wind_faced (calculateRelativeWind canonicalWindTrack ! 1) = Some (- 20)"
    using wind_faced_formula [OF len(2) south] by (simp add: toRadians_def)
  moreover have "wind_faced (calculateRelativeWind canonicalWindTrack ! 2) = Some 0"
    using wind_faced_formula [OF len(3) east] by (simp add: toRadians_def)
  ultimately show ?thesis by blast
qed

text \<open>Claim C2: with two samples and a point recorded after both, no adjacent pair
  surrounds the point's time, so \<open>before\<close> and \<open>after\<close> are both \<^verbatim>\<open>null\<close> and the point
  receives the values of the first sample, although the second sample precedes it and is
  the nearest.\<close>

theorem late_point_gets_first_sample:
  "findSurroundingWindData twoSamples (time latePoint) = (None, None) \<and>
   w_time (twoSamples ! 1) \<le> timeNum (time latePoint) \<and>
   interpolateWindForPoint twoSamples latePoint =
     (w_wind_speed (twoSamples ! 0), w_wind_direction (twoSamples ! 0)) \<and>
   interpolateWindForPoint twoSamples latePoint \<noteq>
     (w_wind_speed (twoSamples ! 1), w_wind_direction (twoSamples ! 1))"
  by (simp add: twoSamples_def latePoint_def newPoint_def interpolateWindForPoint_def)

section \<open>Properties of the route statistics\<close>

lemma foldl_max_clip:
  "foldl max (max 0 a) (map (max 0) xs) = max (0::real) (Max (set (a # xs)))"
proof (induction xs arbitrary: a)
  case Nil
  show ?case by simp
next
  case (Cons x xs)
  have "foldl max (max 0 a) (map (max 0) (x # xs)) = foldl max (max 0 (max a x)) (map (max 0) xs)"
    by (simp add: max.assoc max.left_commute)
  also have "\<dots> = max 0 (Max (set (max a x # xs)))" by (rule Cons.IH)
  also have "Max (set (max a x # xs)) = Max (set (a # x # xs))"
    by (cases "xs = []") (simp_all add: max.assoc)
  finally show ?case .
qed

lemma foldl_min_clip:
  "foldl min (min 0 a) (map (min 0) xs) = min (0::real) (Min (set (a # xs)))"
proof (induction xs arbitrary: a)
  case Nil
  show ?case by simp
next
  case (Cons x xs)
  have "foldl min (min 0 a) (map (min 0) (x # xs)) = foldl min (min 0 (min a x)) (map (min 0) xs)"
    by (simp add: min.assoc min.left_commute)
  also have "\<dots> = min 0 (Min (set (min a x # xs)))" by (rule Cons.IH)
  also have "Min (set (min a x # xs)) = Min (set (a # x # xs))"
    by (cases "xs = []") (simp_all add: min.assoc)
  finally show ?case .
qed

lemma foldl_num2_Some:
  "foldl (num2 f) (Some a) (map Some xs) = Some (foldl f a xs)"
  by (induction xs arbitrary: a) (simp_all add: num2_def)

lemma mathMax_clipped:
  assumes "map wind_faced (first # rest) = map Some (w # ws)"
  shows "mathMax (num2 max (Some 0) (wind_faced first))
           (map (\<lambda>p. num2 max (Some 0) (wind_faced p)) rest) = Some (max 0 (Max (set (w # ws))))"
proof -
  have f: "wind_faced first = Some w" and r: "map wind_faced rest = map Some ws"
    using assms by simp_all
  have "map (\<lambda>p. num2 max (Some 0) (wind_faced p)) rest =
      map (num2 max (Some 0)) (map wind_faced rest)" by (simp add: comp_def)
  also have "\<dots> = map (num2 max (Some 0)) (map Some ws)" by (simp only: r)
  also have "\<dots> = map Some (map (max 0) ws)" by (simp add: comp_def num2_def)
  finally have hv: "map (\<lambda>p. num2 max (Some 0) (wind_faced p)) rest = map Some (map (max 0) ws)" .
  have f': "num2 max (Some 0) (wind_faced first) = Some (max 0 w)" by (simp add: f num2_def)
  show ?thesis
    by (simp only: mathMax_def hv f' foldl_num2_Some foldl_max_clip)
qed

lemma mathMin_clipped:
  assumes "map wind_faced (first # rest) = map Some (w # ws)"
  shows "mathMin (num2 min (Some 0) (wind_faced first))
           (map (\<lambda>p. num2 min (Some 0) (wind_faced p)) rest) = Some (min 0 (Min (set (w # ws))))"
proof -
  have f: "wind_faced first = Some w" and r: "map wind_faced rest = map Some ws"
    using assms by simp_all
  have "map (\<lambda>p. num2 min (Some 0) (wind_faced p)) rest =
      map (num2 min (Some 0)) (map wind_faced rest)" by (simp add: comp_def)
  also have "\<dots> = map (num2 min (Some 0)) (map Some ws)" by (simp only: r)
  also have "\<dots> = map Some (map (min 0) ws)" by (simp add: comp_def num2_def)
  finally have hv: "map (\<lambda>p. num2 min (Some 0) (wind_faced p)) rest = map Some (map (min 0) ws)" .
  have f': "num2 min (Some 0) (wind_faced first) = Some (min 0 w)" by (simp add: f num2_def)
  show ?thesis
    by (simp only: mathMin_def hv f' foldl_num2_Some foldl_min_clip)
qed

lemma no_positive_speeds:
  "(\<forall>p \<in> set gpxData. \<forall>v. speed_kmh p = Some v \<longrightarrow> \<not> v > 0) \<Longrightarrow>
   List.map_filter positiveSpeed (map speed_kmh gpxData) = []"
proof (induction gpxData)
  case Nil
  show ?case by (simp add: List.map_filter_simps)
next
  case (Cons p ps)
  have "positiveSpeed (speed_kmh p) = None"
    using Cons.prems by (cases "speed_kmh p") auto
  then show ?case using Cons by (simp add: List.map_filter_simps)
qed

lemma nonnegative_count:
  "map wind_faced gpxData = map Some ws \<Longrightarrow>
   length (filter isNonNegative (map wind_faced gpxData)) = length (filter (\<lambda>w. w \<ge> 0) ws)"
proof -
  assume "map wind_faced gpxData = map Some ws"
  then have "filter isNonNegative (map wind_faced gpxData) = map Some (filter (\<lambda>w. w \<ge> 0) ws)"
    by (simp add: filter_map comp_def)
  then show ?thesis by simp
qed

text \<open>The hypothesis of the next theorem holds of every track that has gone through the
  kinematics pass and the wind interpolation: each of its points has a wind-faced value.\<close>

lemma kinematicsLoop_bearings:
  "\<forall>p \<in> set (kinematicsLoop prev i c cs). \<exists>b. bearing p = Some b"
proof (induction cs arbitrary: prev i c)
  case Nil
  show ?case by simp
next
  case (Cons cur rest)
  have "\<exists>b. bearing (calculatePointMetrics prev cur i c) = Some b"
    by (simp add: calculatePointMetrics_def Let_def)
  then show ?case using Cons.IH by (simp only: kinematicsLoop_Cons) simp
qed

lemma calculateSpeedAndBearing_bearings:
  "\<forall>p \<in> set (calculateSpeedAndBearing gpxData). \<exists>b. bearing p = Some b"
proof (cases gpxData)
  case Nil
  then show ?thesis by simp
next
  case (Cons first rest)
  show ?thesis
    unfolding Cons calculateSpeedAndBearing_Cons using kinematicsLoop_bearings by simp
qed

lemma interpolateWindAlongRoute_wind_faced:
  assumes "\<forall>p \<in> set gpxData. \<exists>b. bearing p = Some b"
  shows "\<forall>p \<in> set (interpolateWindAlongRoute windData gpxData). \<exists>w. wind_faced p = Some w"
proof
  fix p assume "p \<in> set (interpolateWindAlongRoute windData gpxData)"
  then obtain q where q: "q \<in> set gpxData"
    and p: "p = (case interpolateWindForPoint windData q of
                   (ws, wd) \<Rightarrow> q\<lparr>wind_speed := Some ws, wind_direction := Some wd\<rparr>)
                \<lparr>wind_faced := windComponent
                   (case interpolateWindForPoint windData q of
                      (ws, wd) \<Rightarrow> q\<lparr>wind_speed := Some ws, wind_direction := Some wd\<rparr>)\<rparr>"
    by (auto simp: interpolateWindAlongRoute_def calculateRelativeWind_def)
  obtain b where "bearing q = Some b" using assms q by blast
  then show "\<exists>w. wind_faced p = Some w"
    unfolding p by (simp add: windComponent_def split: prod.splits)
qed

lemma enriched_track_has_wind_faced:
  "\<exists>ws. map wind_faced (interpolateWindAlongRoute windData (calculateSpeedAndBearing gpxData)) =
     map Some ws"
proof -
  have "\<forall>p \<in> set (interpolateWindAlongRoute windData (calculateSpeedAndBearing gpxData)).
      \<exists>w. wind_faced p = Some w"
    using calculateSpeedAndBearing_bearings by (rule interpolateWindAlongRoute_wind_faced)
  then have "map wind_faced (interpolateWindAlongRoute windData (calculateSpeedAndBearing gpxData)) =
      map Some (map (\<lambda>p. the (wind_faced p))
        (interpolateWindAlongRoute windData (calculateSpeedAndBearing gpxData)))"
    by (auto simp: comp_def)
  then show ?thesis by blast
qed

text \<open>Claim C7: on a non-empty track whose points all have a wind-faced value, the
  statistics are computed, the maximum headwind is the larger of 0 and the largest value, the
  maximum tailwind is the larger of 0 and minus the smallest value, the headwind percentage is
  100 times the share of points with a non-negative value and lies between 0 and 100, and the
  average speed is 0 when no point has a positive speed.\<close>

theorem route_statistics:
  assumes "gpxData \<noteq> []" and "map wind_faced gpxData = map Some ws"
  shows "\<exists>stats. calculateRouteStatistics gpxData = Inr stats \<and>
     maxHeadwind stats = Some (max 0 (Max (set ws))) \<and>
     maxTailwind stats = Some (max 0 (- Min (set ws))) \<and>
     headwindPercentage stats =
       100 * (real (length (filter (\<lambda>w. w \<ge> 0) ws)) / real (length gpxData)) \<and>
     0 \<le> headwindPercentage stats \<and> headwindPercentage stats \<le> 100 \<and>
     ((\<forall>p \<in> set gpxData. \<forall>v. speed_kmh p = Some v \<longrightarrow> \<not> v > 0) \<longrightarrow> avgSpeed stats = 0)"
proof -
  obtain first rest where g: "gpxData = first # rest" using assms(1) by (cases gpxData) auto
  obtain w ws' where w: "ws = w # ws'" using assms(2) g by (cases ws) auto
  have m: "map wind_faced (first # rest) = map Some (w # ws')" using assms(2) g w by simp
  define stats where "stats = (case calculateRouteStatistics gpxData of Inr s \<Rightarrow> s)"
  have st: "calculateRouteStatistics gpxData = Inr stats"
    by (simp add: stats_def calculateRouteStatistics_def g Let_def)
  have h: "maxHeadwind stats = Some (max 0 (Max (set ws)))"
    unfolding stats_def w
    by (simp add: calculateRouteStatistics_def g Let_def mathMax_clipped [OF m] del: set_simps)
  have "maxTailwind stats = Some \<bar>min 0 (Min (set ws))\<bar>"
    unfolding stats_def w
    by (simp add: calculateRouteStatistics_def g Let_def mathMin_clipped [OF m] del: set_simps)
  moreover have "\<bar>min 0 x\<bar> = max 0 (- x)" for x :: real by (simp add: min_def max_def)
  ultimately have t: "maxTailwind stats = Some (max 0 (- Min (set ws)))" by simp
  have cnt: "length (filter isNonNegative (map wind_faced gpxData)) =
      length (filter (\<lambda>w. w \<ge> 0) ws)"
    using assms(2) by (rule nonnegative_count)
  have hp: "headwindPercentage stats =
      real (length (filter (\<lambda>w. w \<ge> 0) ws)) / real (length gpxData) * 100"
    unfolding stats_def cnt [symmetric]
    by (simp add: calculateRouteStatistics_def g Let_def)
  have "length (filter (\<lambda>w. w \<ge> 0) ws) \<le> length ws" by (rule length_filter_le)
  moreover have "length ws = length gpxData" using assms(2) by (metis length_map)
  moreover have "0 < length gpxData" using assms(1) by simp
  ultimately have frac: "real (length (filter (\<lambda>w. w \<ge> 0) ws)) / real (length gpxData) \<le> 1"
    by simp
  have "real (length (filter (\<lambda>w. w \<ge> 0) ws)) / real (length gpxData) * 100 \<le> 1 * 100"
    using frac by (rule mult_right_mono) simp
  then have hb: "0 \<le> headwindPercentage stats" "headwindPercentage stats \<le> 100"
    unfolding hp by simp_all
  have av: "(\<forall>p \<in> set gpxData. \<forall>v. speed_kmh p = Some v \<longrightarrow> \<not> v > 0) \<longrightarrow> avgSpeed stats = 0"
  proof
    assume "\<forall>p \<in> set gpxData. \<forall>v. speed_kmh p = Some v \<longrightarrow> \<not> v > 0"
    then have "List.map_filter positiveSpeed (map speed_kmh gpxData) = []"
      by (rule no_positive_speeds)
    then have "List.map_filter positiveSpeed (map speed_kmh (first # rest)) = []"
      unfolding g .
    then show "avgSpeed stats = 0"
      unfolding stats_def g by (simp only: calculateRouteStatistics_def Let_def list.case) simp
  qed
  show ?thesis using st h t hp hb av by (intro exI [of _ stats]) simp
qed

theorem route_statistics_witness:
  "statsTrack \<noteq> [] \<and>
   (\<exists>stats. calculateRouteStatistics statsTrack = Inr stats \<and>
      maxHeadwind stats = Some 12 \<and> maxTailwind stats = Some 7 \<and>
      headwindPercentage stats = 200 / 3 \<and> avgSpeed stats = 0)"
proof -
  have ne: "statsTrack \<noteq> []" by (simp add: statsTrack_def)
  have m: "map wind_faced statsTrack = map Some [12, - 7, 0]"
    by (simp add: statsTrack_def newPoint_def)
  have sp: "\<forall>p \<in> set statsTrack. \<forall>v. speed_kmh p = Some v \<longrightarrow> \<not> v > 0"
    by (simp add: statsTrack_def newPoint_def)
  have len: "length statsTrack = 3" by (simp add: statsTrack_def)
  obtain stats where "calculateRouteStatistics statsTrack = Inr stats"
      "maxHeadwind stats = Some (max 0 (Max (set [12, - 7, 0])))"
      "maxTailwind stats = Some (max 0 (- Min (set [12, - 7, 0])))"
      "headwindPercentage stats =
         100 * (real (length (filter (\<lambda>w. w \<ge> 0) [12, - 7, 0 :: real])) / real (length statsTrack))"
      "avgSpeed stats = 0"
    using route_statistics [OF ne m] sp by blast
  then show ?thesis using ne by (simp add: len)
qed

section \<open>Properties of ingestion\<close>

lemma zero_not_valid: "\<not> isValidCoordinate (Some 0) lo" "\<not> isValidCoordinate la (Some 0)"
  by (auto simp: isValidCoordinate_def split: option.splits)

lemma extractLoop_skip:
  "\<not> isValidCoordinate (parseAttribute pf (latAttr r)) (parseAttribute pf (lonAttr r)) \<Longrightarrow>
   extractLoop pf points (r # rest) = extractLoop pf points rest"
  by (simp add: Let_def)

lemma extractLoop_all_zero:
  "\<forall>r \<in> set raws. parseAttribute pf (latAttr r) = Some 0 \<or> parseAttribute pf (lonAttr r) = Some 0
   \<Longrightarrow> extractLoop pf points raws = points"
proof (induction raws)
  case Nil
  show ?case by simp
next
  case (Cons r rest)
  have "\<not> isValidCoordinate (parseAttribute pf (latAttr r)) (parseAttribute pf (lonAttr r))"
    using Cons.prems zero_not_valid by auto
  then have "extractLoop pf points (r # rest) = extractLoop pf points rest"
    by (rule extractLoop_skip)
  also have "\<dots> = points" using Cons.prems by (intro Cons.IH) simp
  finally show ?case .
qed

text \<open>Claim C8: a latitude of 0 or a longitude of 0 fails the coordinate check; the
  extraction loop skips a raw point that has one; and a file whose selected points all have
  one is rejected for containing no valid points.\<close>

theorem zero_coordinates_dropped:
  "\<not> isValidCoordinate (Some 0) lo \<and> \<not> isValidCoordinate la (Some 0) \<and>
   (parseAttribute pf (latAttr r) = Some 0 \<or> parseAttribute pf (lonAttr r) = Some 0 \<longrightarrow>
      extractLoop pf points (r # rest) = extractLoop pf points rest) \<and>
   (selectTrackPoints xmlDoc \<noteq> [] \<and>
    (\<forall>r \<in> set (selectTrackPoints xmlDoc).
       parseAttribute pf (latAttr r) = Some 0 \<or> parseAttribute pf (lonAttr r) = Some 0) \<longrightarrow>
      readGPXFile pf (Some (Document xmlDoc)) = Inl NoValidPoints)"
proof -
  have a: "parseAttribute pf (latAttr r) = Some 0 \<or> parseAttribute pf (lonAttr r) = Some 0 \<longrightarrow>
      extractLoop pf points (r # rest) = extractLoop pf points rest"
    using zero_not_valid by (auto intro!: extractLoop_skip)
  have b: "selectTrackPoints xmlDoc \<noteq> [] \<and>
    (\<forall>r \<in> set (selectTrackPoints xmlDoc).
       parseAttribute pf (latAttr r) = Some 0 \<or> parseAttribute pf (lonAttr r) = Some 0) \<longrightarrow>
      readGPXFile pf (Some (Document xmlDoc)) = Inl NoValidPoints"
  proof
    assume h: "selectTrackPoints xmlDoc \<noteq> [] \<and>
      (\<forall>r \<in> set (selectTrackPoints xmlDoc).
         parseAttribute pf (latAttr r) = Some 0 \<or> parseAttribute pf (lonAttr r) = Some 0)"
    then have "extractLoop pf [] (selectTrackPoints xmlDoc) = []"
      using extractLoop_all_zero by blast
    then show "readGPXFile pf (Some (Document xmlDoc)) = Inl NoValidPoints"
      using h by (simp add: readGPXFile_def extractGPXPoints_def Let_def)
  qed
  show ?thesis using zero_not_valid a b by blast
qed

theorem zero_coordinates_dropped_witness:
  "selectTrackPoints equatorDoc \<noteq> [] \<and>
   parseAttribute examplePlatform (latAttr (hd (selectTrackPoints equatorDoc))) = Some 0 \<and>
   readGPXFile examplePlatform (Some (Document equatorDoc)) = Inl NoValidPoints"
proof -
  have sel: "selectTrackPoints equatorDoc =
      [\<lparr>latAttr = Some ''0'', lonAttr = Some ''9.25'', eleText = None,
        timeText = Some ''2024-05-01T10:00:00Z''\<rparr>]"
    by (simp add: selectTrackPoints_def equatorDoc_def)
  have z: "parseAttribute examplePlatform (latAttr (hd (selectTrackPoints equatorDoc))) = Some 0"
    unfolding sel by (simp add: parseAttribute_def examplePlatform_def)
  then have "\<forall>r \<in> set (selectTrackPoints equatorDoc).
       parseAttribute examplePlatform (latAttr r) = Some 0 \<or>
       parseAttribute examplePlatform (lonAttr r) = Some 0"
    unfolding sel by simp
  moreover have ne: "selectTrackPoints equatorDoc \<noteq> []" unfolding sel by simp
  ultimately have "readGPXFile examplePlatform (Some (Document equatorDoc)) = Inl NoValidPoints"
    using zero_coordinates_dropped [of _ _ examplePlatform _ _ _ equatorDoc] by blast
  then show ?thesis using ne z by blast
qed

lemma readGPXFile_missing_iff:
  "readGPXFile pf (Some (Document xmlDoc)) = Inl MissingTimestamps \<longleftrightarrow>
     extractLoop pf [] (selectTrackPoints xmlDoc) \<noteq> [] \<and>
     \<not> list_ex (hasValidTime pf) (extractLoop pf [] (selectTrackPoints xmlDoc))"
proof (cases "selectTrackPoints xmlDoc = []")
  case True
  then show ?thesis by (simp add: readGPXFile_def extractGPXPoints_def)
next
  case False
  then show ?thesis
    by (simp add: readGPXFile_def extractGPXPoints_def validateTimestamps_def Let_def)
qed

lemma extractLoop_untimed:
  "\<forall>p \<in> set points. time p = None \<Longrightarrow> \<forall>r \<in> set raws. timeText r = None \<Longrightarrow>
   \<forall>p \<in> set (extractLoop pf points raws). time p = None"
proof (induction raws arbitrary: points)
  case Nil
  then show ?case by simp
next
  case (Cons r rest)
  have t: "extractTimestamp pf r n = None" for n
    using Cons.prems(2) by (simp add: extractTimestamp_def)
  have rest: "\<forall>r \<in> set rest. timeText r = None" using Cons.prems(2) by simp
  show ?case
  proof (cases "isValidCoordinate (parseAttribute pf (latAttr r)) (parseAttribute pf (lonAttr r))")
    case False
    then have "extractLoop pf points (r # rest) = extractLoop pf points rest"
      by (rule extractLoop_skip)
    then show ?thesis using Cons.IH [OF Cons.prems(1) rest] by (simp only:)
  next
    case True
    then obtain x y where xy: "parseAttribute pf (latAttr r) = Some x"
        "parseAttribute pf (lonAttr r) = Some y"
      by (auto simp: isValidCoordinate_def split: option.splits)
    define p where "p = newPoint x y (extractElevation pf r) (extractTimestamp pf r (length points))"
    have "time p = None" by (simp add: p_def newPoint_def t)
    then have "\<forall>q \<in> set (points @ [p]). time q = None" using Cons.prems(1) by simp
    from Cons.IH [OF this rest] show ?thesis
      using True by (simp add: Let_def xy p_def)
  qed
qed

lemma extractLoop_length_valid:
  "\<forall>r \<in> set raws.
     isValidCoordinate (parseAttribute pf (latAttr r)) (parseAttribute pf (lonAttr r)) \<Longrightarrow>
   length (extractLoop pf points raws) = length points + length raws"
proof (induction raws arbitrary: points)
  case Nil
  show ?case by simp
next
  case (Cons r rest)
  have v: "isValidCoordinate (parseAttribute pf (latAttr r)) (parseAttribute pf (lonAttr r))"
    using Cons.prems by simp
  then obtain x y where xy: "parseAttribute pf (latAttr r) = Some x"
      "parseAttribute pf (lonAttr r) = Some y"
    by (auto simp: isValidCoordinate_def split: option.splits)
  have rest: "\<forall>r \<in> set rest.
     isValidCoordinate (parseAttribute pf (latAttr r)) (parseAttribute pf (lonAttr r))"
    using Cons.prems by simp
  show ?case using v by (simp add: Let_def xy Cons.IH [OF rest])
qed

lemma untimed_no_valid_time:
  "\<forall>p \<in> set points. time p = None \<Longrightarrow> \<not> list_ex (hasValidTime pf) points"
  by (simp add: list_ex_iff hasValidTime_def)

text \<open>Claim C4, as the code has it: reading a parsed document fails for missing timestamps
  exactly when some point has valid coordinates and none of those points has a time with a
  year after 2000; in particular it does when every selected point has valid coordinates
  and no time element.\<close>

theorem missing_timestamps_iff:
  "(readGPXFile pf (Some (Document xmlDoc)) = Inl MissingTimestamps \<longleftrightarrow>
      extractLoop pf [] (selectTrackPoints xmlDoc) \<noteq> [] \<and>
      \<not> list_ex (hasValidTime pf) (extractLoop pf [] (selectTrackPoints xmlDoc))) \<and>
   (selectTrackPoints xmlDoc \<noteq> [] \<and>
    (\<forall>r \<in> set (selectTrackPoints xmlDoc).
       isValidCoordinate (parseAttribute pf (latAttr r)) (parseAttribute pf (lonAttr r)) \<and>
       timeText r = None) \<longrightarrow>
      readGPXFile pf (Some (Document xmlDoc)) = Inl MissingTimestamps)"
proof -
  have "readGPXFile pf (Some (Document xmlDoc)) = Inl MissingTimestamps"
    if ne: "selectTrackPoints xmlDoc \<noteq> []"
    and all: "\<forall>r \<in> set (selectTrackPoints xmlDoc).
       isValidCoordinate (parseAttribute pf (latAttr r)) (parseAttribute pf (lonAttr r)) \<and>
       timeText r = None"
  proof -
    have "length (extractLoop pf [] (selectTrackPoints xmlDoc)) =
        length ([] :: TrackPoint list) + length (selectTrackPoints xmlDoc)"
      using all by (intro extractLoop_length_valid) blast
    then have pts: "extractLoop pf [] (selectTrackPoints xmlDoc) \<noteq> []" using ne by auto
    have "\<forall>p \<in> set (extractLoop pf [] (selectTrackPoints xmlDoc)). time p = None"
      using all by (intro extractLoop_untimed) auto
    then have "\<not> list_ex (hasValidTime pf) (extractLoop pf [] (selectTrackPoints xmlDoc))"
      by (rule untimed_no_valid_time)
    with pts show ?thesis using readGPXFile_missing_iff by blast
  qed
  then show ?thesis using readGPXFile_missing_iff by blast
qed

theorem missing_timestamps_iff_witness:
  "readGPXFile examplePlatform (Some (Document noTimeDoc)) = Inl MissingTimestamps \<and>
   readGPXFile examplePlatform (Some (Document timedDoc)) \<noteq> Inl MissingTimestamps"
proof -
  have sel: "selectTrackPoints noTimeDoc =
      replicate 5 \<lparr>latAttr = Some ''48.5'', lonAttr = Some ''9.25'', eleText = None,
                   timeText = None\<rparr>"
    by (simp add: selectTrackPoints_def noTimeDoc_def)
  have ne: "selectTrackPoints noTimeDoc \<noteq> []" unfolding sel by simp
  have all: "\<forall>r \<in> set (selectTrackPoints noTimeDoc).
       isValidCoordinate (parseAttribute examplePlatform (latAttr r))
         (parseAttribute examplePlatform (lonAttr r)) \<and> timeText r = None"
    unfolding sel by (simp add: isValidCoordinate_def parseAttribute_def examplePlatform_def)
  have a: "readGPXFile examplePlatform (Some (Document noTimeDoc)) = Inl MissingTimestamps"
    using missing_timestamps_iff [of examplePlatform noTimeDoc] ne all by blast
  have "list_ex (hasValidTime examplePlatform)
      (extractLoop examplePlatform [] (selectTrackPoints timedDoc))"
    by (simp add: selectTrackPoints_def timedDoc_def Let_def isValidCoordinate_def
        parseAttribute_def examplePlatform_def extractTimestamp_def trim_def isWhiteSpace_def
        hasValidTime_def newPoint_def)
  then have b: "readGPXFile examplePlatform (Some (Document timedDoc)) \<noteq> Inl MissingTimestamps"
    using missing_timestamps_iff [of examplePlatform timedDoc] by blast
  show ?thesis using a b by blast
qed

text \<open>Claim C4 as stated fails on \<open>noLatDoc\<close>, whose only point has no latitude: none of
  the points with valid coordinates has a valid time, there being none, and the file is
  rejected for containing no valid points, not for missing timestamps.\<close>

theorem no_valid_point_is_not_missing_timestamps:
  "\<not> list_ex (hasValidTime examplePlatform)
        (extractLoop examplePlatform [] (selectTrackPoints noLatDoc)) \<and>
   readGPXFile examplePlatform (Some (Document noLatDoc)) = Inl NoValidPoints \<and>
   readGPXFile examplePlatform (Some (Document noLatDoc)) \<noteq> Inl MissingTimestamps"
  by (simp add: selectTrackPoints_def noLatDoc_def Let_def isValidCoordinate_def
      parseAttribute_def readGPXFile_def extractGPXPoints_def)

section \<open>Properties of the double-precision model\<close>

subsection \<open>Rounding\<close>

text \<open>Rules to evaluate \<open>roundDouble\<close>: a value that \<open>2 ^ n\<close> scales into the range of the
  53-bit integers rounds to the integer within a half of it, and to the even neighbour when
  it lies exactly halfway; for a square root the same is decided on the squares.\<close>

lemma roundHalfEven_near: "\<bar>y - of_int m\<bar> < 1 / 2 \<Longrightarrow> roundHalfEven y = m"
proof -
  assume a: "\<bar>y - of_int m\<bar> < 1 / 2"
  then have b: "y - of_int m < 1 / 2" "- (1 / 2) < y - of_int m" by linarith+
  have "\<lfloor>y\<rfloor> = m \<or> \<lfloor>y\<rfloor> = m - 1" using b by linarith
  then show ?thesis
  proof
    assume f: "\<lfloor>y\<rfloor> = m"
    show ?thesis using b(1) by (simp add: roundHalfEven_def Let_def f)
  next
    assume f: "\<lfloor>y\<rfloor> = m - 1"
    have "1 / 2 < y - of_int (m - 1)" using b(2) by simp
    then have "\<not> y - of_int (m - 1) < 1 / 2" by linarith
    then show ?thesis
      using \<open>1 / 2 < y - of_int (m - 1)\<close> by (simp only: roundHalfEven_def Let_def f if_False if_True)
  qed
qed

lemma roundDouble_eqI:
  assumes lo: "2 ^ 52 \<le> \<bar>x\<bar> * 2 ^ n" and hi: "\<bar>x\<bar> * 2 ^ n < 2 ^ 53"
    and m: "\<bar>x * 2 ^ n - of_int m\<bar> < 1 / 2"
  shows "roundDouble x = of_int m / 2 ^ n"
proof -
  have x0: "x \<noteq> 0" using lo by auto
  have s: "(0::real) < 2 ^ n" by simp
  have p: "(2::real) powr (of_int (52 - int n)) = 2 ^ 52 / 2 ^ n"
    by (simp add: powr_diff powr_realpow flip: powr_numeral)
  have q: "(2::real) powr (of_int (52 - int n + 1)) = 2 ^ 53 / 2 ^ n"
    by (simp add: powr_diff powr_add powr_realpow flip: powr_numeral)
  have "2 ^ 52 / 2 ^ n \<le> \<bar>x\<bar>" using lo s by (simp only: pos_divide_le_eq)
  moreover have "\<bar>x\<bar> < 2 ^ 53 / 2 ^ n" using hi s by (simp only: pos_less_divide_eq)
  ultimately have "2 powr (of_int (52 - int n)) \<le> \<bar>x\<bar> \<and> \<bar>x\<bar> < 2 powr (of_int (52 - int n + 1))"
    by (simp only: p q)
  moreover have "0 < \<bar>x\<bar>" using x0 by simp
  ultimately have e: "\<lfloor>log 2 \<bar>x\<bar>\<rfloor> = 52 - int n"
    by (simp only: floor_log_eq_powr_iff [of "\<bar>x\<bar>" 2 "52 - int n"])
  have u: "(2::real) powr (of_int (52 - int n) - 52) = 1 / 2 ^ n"
    by (simp add: powr_minus_divide powr_realpow)
  have "x / (1 / 2 ^ n) = x * 2 ^ n" by simp
  then have "roundHalfEven (x / (1 / 2 ^ n)) = m" using roundHalfEven_near [OF m] by simp
  then show ?thesis
    using x0 by (simp only: roundDouble_def Let_def e u if_False) simp
qed

lemma roundDouble_sqrt_eqI:
  assumes lo: "(2 ^ 52)\<^sup>2 \<le> q * (2 ^ n)\<^sup>2" and hi: "m < 2 ^ 53" and pos: "0 < m"
    and below4: "(2 * of_int m - 1)\<^sup>2 < 4 * (q * (2 ^ n)\<^sup>2)"
    and above4: "4 * (q * (2 ^ n)\<^sup>2) < (2 * of_int m + 1)\<^sup>2"
  shows "roundDouble (sqrt q) = of_int m / 2 ^ n"
proof -
  define y where "y = sqrt q * 2 ^ n"
  have "(of_int m - 1 / 2)\<^sup>2 = (2 * real_of_int m - 1)\<^sup>2 / 4"
    by (simp add: power2_eq_square field_simps)
  then have below: "(of_int m - 1 / 2)\<^sup>2 < q * (2 ^ n)\<^sup>2" using below4 by simp
  have "(of_int m + 1 / 2)\<^sup>2 = (2 * real_of_int m + 1)\<^sup>2 / 4"
    by (simp add: power2_eq_square field_simps)
  then have above: "q * (2 ^ n)\<^sup>2 < (of_int m + 1 / 2)\<^sup>2" using above4 by simp
  have q0: "0 \<le> q"
  proof (rule ccontr)
    assume "\<not> 0 \<le> q"
    then have "q * (2 ^ n)\<^sup>2 < 0" by (simp add: mult_neg_pos)
    moreover have "(0::real) \<le> (2 ^ 52)\<^sup>2" by simp
    ultimately show False using lo by linarith
  qed
  have y0: "0 \<le> y" unfolding y_def using q0 by simp
  have y2: "q * (2 ^ n)\<^sup>2 = y\<^sup>2" unfolding y_def using q0 by (simp add: power_mult_distrib)
  have m1: "(1::real) \<le> of_int m" using pos by linarith
  have below': "(of_int m - 1 / 2)\<^sup>2 < y\<^sup>2" using below by (simp only: y2)
  have above': "y\<^sup>2 < (of_int m + 1 / 2)\<^sup>2" using above by (simp only: y2)
  have lo': "((2::real) ^ 52)\<^sup>2 \<le> y\<^sup>2" using lo by (simp only: y2)
  have a: "of_int m - 1 / 2 < y"
    using below' y0 by (rule power2_less_imp_less)
  have mh: "0 \<le> real_of_int m + 1 / 2" using m1 by linarith
  have b: "y < of_int m + 1 / 2"
    using above' mh by (rule power2_less_imp_less)
  have c: "(2::real) ^ 52 \<le> y"
    using lo' y0 by (rule power2_le_imp_le)
  have "m \<le> 2 ^ 53 - 1" using hi by simp
  then have "real_of_int m \<le> real_of_int (2 ^ 53 - 1)" by (simp only: of_int_le_iff)
  then have "of_int m \<le> (2::real) ^ 53 - 1" by simp
  then have d: "y < 2 ^ 53" using b by linarith
  have ay: "\<bar>sqrt q\<bar> * 2 ^ n = y" unfolding y_def using q0 by simp
  have e1: "\<bar>sqrt q * 2 ^ n - of_int m\<bar> < 1 / 2" using a b unfolding y_def by linarith
  have e2: "2 ^ 52 \<le> \<bar>sqrt q\<bar> * 2 ^ n" unfolding ay by (rule c)
  have e3: "\<bar>sqrt q\<bar> * 2 ^ n < 2 ^ 53" unfolding ay by (rule d)
  show ?thesis using e2 e3 e1 by (rule roundDouble_eqI)
qed


lemma dbl2_None [simp]: "dbl2 f None b = None" "dbl2 f a None = None"
  by (simp_all add: dbl2_def num2_def split: option.splits)

lemma num2_None [simp]: "num2 f None b = None" "num2 f a None = None"
  by (simp_all add: num2_def split: option.splits)

subsection \<open>The pass and the total\<close>

lemma metricsD_fields:
  "lat (calculatePointMetricsD ml prev cur i c) = lat cur"
  "lon (calculatePointMetricsD ml prev cur i c) = lon cur"
  "time (calculatePointMetricsD ml prev cur i c) = time cur"
  "distance_km (calculatePointMetricsD ml prev cur i c) =
     dbl2 (/) (dbl2 (+) c
       (haversineDistanceD ml (Some (lat prev)) (Some (lon prev)) (Some (lat cur)) (Some (lon cur))))
       (Some 1000)"
  "speed_kmh (calculatePointMetricsD ml prev cur i c) =
     calculateSpeedD
       (haversineDistanceD ml (Some (lat prev)) (Some (lon prev)) (Some (lat cur)) (Some (lon cur)))
       (dbl2 (/) (Some (real_of_int (timeNum (time cur) - timeNum (time prev)))) (Some 1000))
       (speed_kmh prev)"
  by (simp_all add: calculatePointMetricsD_def Let_def)

lemma kinematicsLoopD_Cons:
  "kinematicsLoopD ml prev i c (cur # rest) =
     calculatePointMetricsD ml prev cur i c #
     kinematicsLoopD ml (calculatePointMetricsD ml prev cur i c) (Suc i)
       (dbl2 (*) (distance_km (calculatePointMetricsD ml prev cur i c)) (Some 1000)) rest"
  by (simp only: kinematicsLoopD.simps Let_def)

lemma calculateSpeedAndBearingD_Cons:
  "calculateSpeedAndBearingD ml (first # rest) =
     first\<lparr>speed_kmh := Some 0, bearing := Some 0, distance_km := Some 0\<rparr> #
     kinematicsLoopD ml (first\<lparr>speed_kmh := Some 0, bearing := Some 0, distance_km := Some 0\<rparr>)
       (Suc 0) (Some 0) rest"
  by (simp add: Let_def)

lemma calculateSpeedD_NaN:
  "\<not> dle timeDiff (Some 0) \<Longrightarrow> calculateSpeedD None timeDiff prevSpeed = None"
  by (simp add: calculateSpeedD_def dle_def dgt_def Let_def)





subsection \<open>The nearly antipodal track\<close>

text \<open>The values of the engine's functions at the arguments of the example tracks.\<close>

lemma engine_sin_1: "msin engineMath (- (884279719003555 / 562949953421312)) = - 1"
  by (simp add: engineMath_def)

lemma engine_sin_2: "msin engineMath (- (5811879326499809 / 9007199254740992)) = - (5416900593495557 / 9007199254740992)"
  by (simp add: engineMath_def)

lemma engine_sin_3: "msin engineMath (0) = 0"
  by (simp add: engineMath_def)

lemma engine_sin_4: "msin engineMath (3863477044307945 / 36893488147419103232) = 7726954074493301 / 73786976294838206464"
  by (simp add: engineMath_def)

lemma engine_sin_5: "msin engineMath (2897607783230959 / 18446744073709551616) = 5795215542630049 / 36893488147419103232"
  by (simp add: engineMath_def)

lemma engine_cos_1: "mcos engineMath (- (5811879326499809 / 9007199254740992)) = 1799076609937619 / 2251799813685248"
  by (simp add: engineMath_def)

lemma engine_cos_2: "mcos engineMath (5811879326499809 / 9007199254740992) = 1799076609937619 / 2251799813685248"
  by (simp add: engineMath_def)

lemma engine_cos_3: "mcos engineMath (3772926801081835 / 4503599627370496) = 753374087364987 / 1125899906842624"
  by (simp add: engineMath_def)

lemma engine_cos_4: "mcos engineMath (7548683297264481 / 9007199254740992) = 3012444764131237 / 4503599627370496"
  by (simp add: engineMath_def)

lemma engine_cos_5: "mcos engineMath (3775284880332511 / 4503599627370496) = 376467942757907 / 562949953421312"
  by (simp add: engineMath_def)

lemma engine_atan2_1: "num2 (matan2 engineMath) (Some 0) (Some 1) = Some 0"
  by (simp add: engineMath_def num2_def)

lemma engine_atan2_2: "num2 (matan2 engineMath) (Some (7726954074493301 / 73786976294838206464)) (Some (1125899900669187 / 1125899906842624)) = Some (3863477044307945 / 36893488147419103232)"
  by (simp add: engineMath_def num2_def)

lemma engine_atan2_3: "num2 (matan2 engineMath) (Some (5795215542630049 / 36893488147419103232)) (Some (9007199143619125 / 9007199254740992)) = Some (2897607783230959 / 18446744073709551616)"
  by (simp add: engineMath_def num2_def)

lemmas engine_tables = engine_sin_1 engine_sin_2 engine_sin_3 engine_sin_4 engine_sin_5 engine_cos_1 engine_cos_2 engine_cos_3 engine_cos_4 engine_cos_5 engine_atan2_1 engine_atan2_2 engine_atan2_3

text \<open>The operations of \<^verbatim>\<open>haversineDistance\<close> from \<open>(36.97, 10)\<close> to \<open>(-36.97, -170)\<close>, each
  with its rounded result. The two terms of \<open>a\<close> add up to 4503599627370497 / 2 ^ 52, one
  unit in the last place above 1, so \<open>1 - a\<close> is negative and its square root is \<^verbatim>\<open>NaN\<close>.\<close>

lemma antipodal_step_1: "roundDouble (3697 / 100) = 1300766236124119 / 35184372088832"
  using roundDouble_eqI [where n = 47 and m = "5203064944496476" and x = "3697 / 100"] by simp

lemma antipodal_step_2: "dbl2 (-) (Some (- (1300766236124119 / 35184372088832))) (Some (1300766236124119 / 35184372088832)) = Some (- (1300766236124119 / 17592186044416))"
  using roundDouble_eqI [where n = 46 and m = "- 5203064944496476" and x = "(- (1300766236124119 / 35184372088832)) - (1300766236124119 / 35184372088832)"]
  by (simp add: dbl2_def num2_def)

lemma antipodal_step_3: "dbl2 (/) (Some (884279719003555 / 281474976710656)) (Some 180) = Some (5030569068109113 / 288230376151711744)"
  using roundDouble_eqI [where n = 58 and m = "5030569068109113" and x = "(884279719003555 / 281474976710656) / 180"]
  by (simp add: dbl2_def num2_def)

lemma antipodal_step_4: "dbl2 (*) (Some (- (1300766236124119 / 17592186044416))) (Some (5030569068109113 / 288230376151711744)) = Some (- (5811879326499809 / 4503599627370496))"
  using roundDouble_eqI [where n = 52 and m = "- 5811879326499809" and x = "(- (1300766236124119 / 17592186044416)) * (5030569068109113 / 288230376151711744)"]
  by (simp add: dbl2_def num2_def)

lemma antipodal_step_5: "dbl2 (-) (Some (- 170)) (Some 10) = Some (- 180)"
  using roundDouble_eqI [where n = 45 and m = "- 6333186975989760" and x = "(- 170) - 10"]
  by (simp add: dbl2_def num2_def)

lemma antipodal_step_6: "dbl2 (*) (Some (- 180)) (Some (5030569068109113 / 288230376151711744)) = Some (- (884279719003555 / 281474976710656))"
  using roundDouble_eqI [where n = 51 and m = "- 7074237752028440" and x = "(- 180) * (5030569068109113 / 288230376151711744)"]
  by (simp add: dbl2_def num2_def)

lemma antipodal_step_7: "dbl2 (/) (Some (- (5811879326499809 / 4503599627370496))) (Some 2) = Some (- (5811879326499809 / 9007199254740992))"
  using roundDouble_eqI [where n = 53 and m = "- 5811879326499809" and x = "(- (5811879326499809 / 4503599627370496)) / 2"]
  by (simp add: dbl2_def num2_def)

lemma antipodal_step_8: "dbl2 (/) (Some (- (884279719003555 / 281474976710656))) (Some 2) = Some (- (884279719003555 / 562949953421312))"
  using roundDouble_eqI [where n = 52 and m = "- 7074237752028440" and x = "(- (884279719003555 / 281474976710656)) / 2"]
  by (simp add: dbl2_def num2_def)

lemma antipodal_step_9: "dbl2 (*) (Some (- (5416900593495557 / 9007199254740992))) (Some (- (5416900593495557 / 9007199254740992))) = Some (6515413106769623 / 18014398509481984)"
  using roundDouble_eqI [where n = 54 and m = "6515413106769623" and x = "(- (5416900593495557 / 9007199254740992)) * (- (5416900593495557 / 9007199254740992))"]
  by (simp add: dbl2_def num2_def)

lemma antipodal_step_10: "dbl2 (*) (Some (1300766236124119 / 35184372088832)) (Some (5030569068109113 / 288230376151711744)) = Some (5811879326499809 / 9007199254740992)"
  using roundDouble_eqI [where n = 53 and m = "5811879326499809" and x = "(1300766236124119 / 35184372088832) * (5030569068109113 / 288230376151711744)"]
  by (simp add: dbl2_def num2_def)

lemma antipodal_step_11: "dbl2 (*) (Some (- (1300766236124119 / 35184372088832))) (Some (5030569068109113 / 288230376151711744)) = Some (- (5811879326499809 / 9007199254740992))"
  using roundDouble_eqI [where n = 53 and m = "- 5811879326499809" and x = "(- (1300766236124119 / 35184372088832)) * (5030569068109113 / 288230376151711744)"]
  by (simp add: dbl2_def num2_def)

lemma antipodal_step_12: "dbl2 (*) (Some (1799076609937619 / 2251799813685248)) (Some (1799076609937619 / 2251799813685248)) = Some (2874746350678091 / 4503599627370496)"
  using roundDouble_eqI [where n = 53 and m = "5749492701356182" and x = "(1799076609937619 / 2251799813685248) * (1799076609937619 / 2251799813685248)"]
  by (simp add: dbl2_def num2_def)

lemma antipodal_step_13: "dbl2 (*) (Some (2874746350678091 / 4503599627370496)) (Some (- 1)) = Some (- (2874746350678091 / 4503599627370496))"
  using roundDouble_eqI [where n = 53 and m = "- 5749492701356182" and x = "(2874746350678091 / 4503599627370496) * (- 1)"]
  by (simp add: dbl2_def num2_def)

lemma antipodal_step_14: "dbl2 (*) (Some (- (2874746350678091 / 4503599627370496))) (Some (- 1)) = Some (2874746350678091 / 4503599627370496)"
  using roundDouble_eqI [where n = 53 and m = "5749492701356182" and x = "(- (2874746350678091 / 4503599627370496)) * (- 1)"]
  by (simp add: dbl2_def num2_def)

lemma antipodal_step_15: "dbl2 (+) (Some (6515413106769623 / 18014398509481984)) (Some (2874746350678091 / 4503599627370496)) = Some (4503599627370497 / 4503599627370496)"
  using roundDouble_eqI [where n = 52 and m = "4503599627370497" and x = "(6515413106769623 / 18014398509481984) + (2874746350678091 / 4503599627370496)"]
  by (simp add: dbl2_def num2_def)

lemma antipodal_step_16: "dsqrt (Some (4503599627370497 / 4503599627370496)) = Some 1"
  using roundDouble_sqrt_eqI [where n = 52 and m = "4503599627370496" and q = "4503599627370497 / 4503599627370496"]
  by (simp add: dsqrt_def)

lemma antipodal_step_17: "dbl2 (-) (Some 1) (Some (4503599627370497 / 4503599627370496)) = Some (- (1 / 4503599627370496))"
  using roundDouble_eqI [where n = 104 and m = "- 4503599627370496" and x = "1 - (4503599627370497 / 4503599627370496)"]
  by (simp add: dbl2_def num2_def)

lemma antipodal_step_18: "dsqrt (Some (- (1 / 4503599627370496))) = None"
  by (simp add: dsqrt_def)

lemma antipodal_step_19: "dbl2 (/) (Some 10000) (Some 1000) = Some 10"
  using roundDouble_eqI [where n = 49 and m = "5629499534213120" and x = "10000 / 1000"]
  by (simp add: dbl2_def num2_def)

lemmas antipodal_steps = antipodal_step_1 antipodal_step_2 antipodal_step_3 antipodal_step_4 antipodal_step_5 antipodal_step_6 antipodal_step_7 antipodal_step_8 antipodal_step_9 antipodal_step_10 antipodal_step_11 antipodal_step_12 antipodal_step_13 antipodal_step_14 antipodal_step_15 antipodal_step_16 antipodal_step_17 antipodal_step_18 antipodal_step_19

lemma antipodal_haversine:
  "haversineDistanceD engineMath (Some (roundDouble (3697 / 100))) (Some 10)
     (Some (- roundDouble (3697 / 100))) (Some (- 170)) = None"
  by (simp only: haversineDistanceD_def Let_def toRadiansD_def MATH_PI_def antipodal_steps engine_tables
      option.map dbl2_None num2_None)

lemma antipodal_pass:
  "distance_km (calculateSpeedAndBearingD engineMath antipodalTrack ! 0) = Some 0 \<and>
   speed_kmh (calculateSpeedAndBearingD engineMath antipodalTrack ! 0) = Some 0 \<and>
   distance_km (calculateSpeedAndBearingD engineMath antipodalTrack ! 1) = None \<and>
   speed_kmh (calculateSpeedAndBearingD engineMath antipodalTrack ! 1) = None"
proof -
  define p0 where "p0 = newPoint (roundDouble (3697 / 100)) 10 0 (Some 1714557600000)
    \<lparr>speed_kmh := Some 0, bearing := Some 0, distance_km := Some 0\<rparr>"
  define q1 where "q1 = newPoint (- roundDouble (3697 / 100)) (- 170) 0 (Some 1714557610000)"
  define p1 where "p1 = calculatePointMetricsD engineMath p0 q1 (Suc 0) (Some 0)"
  have out: "calculateSpeedAndBearingD engineMath antipodalTrack = [p0, p1]"
    unfolding antipodalTrack_def p0_def q1_def p1_def
    by (simp only: calculateSpeedAndBearingD_Cons kinematicsLoopD_Cons kinematicsLoopD.simps(1))
  have f: "lat p0 = roundDouble (3697 / 100)" "lon p0 = 10"
      "lat q1 = - roundDouble (3697 / 100)" "lon q1 = - 170"
    by (simp_all add: p0_def q1_def newPoint_def)
  have t: "real_of_int (timeNum (time q1) - timeNum (time p0)) = 10000"
    by (simp add: p0_def q1_def newPoint_def)
  have h: "haversineDistanceD engineMath (Some (lat p0)) (Some (lon p0)) (Some (lat q1)) (Some (lon q1)) = None"
    unfolding f by (rule antipodal_haversine)
  have z: "distance_km p0 = Some 0" "speed_kmh p0 = Some 0" by (simp_all add: p0_def)
  have d: "distance_km p1 = None"
    unfolding p1_def by (simp only: metricsD_fields h dbl2_None)
  have "\<not> dle (Some 10) (Some 0)" by (simp add: dle_def)
  then have "calculateSpeedD None (Some 10) (speed_kmh p0) = None" by (rule calculateSpeedD_NaN)
  then have s: "speed_kmh p1 = None"
    unfolding p1_def by (simp only: metricsD_fields h t antipodal_steps)
  show ?thesis unfolding out using z d s by simp
qed

text \<open>Claim C5 fails in the code's arithmetic on \<open>antipodalTrack\<close>, two points with valid
  coordinates and increasing times: the pass gives the first point the distance 0 and the
  second the distance \<^verbatim>\<open>NaN\<close>, which is not greater than or equal to 0. Every later point of
  a longer track would inherit the \<^verbatim>\<open>NaN\<close>. The cause is the root of \<open>1 - a\<close> in
  \<^verbatim>\<open>haversineDistance\<close>, taken without clamping \<open>a\<close> to 1.\<close>

theorem antipodal_distance_is_NaN:
  "distance_km (calculateSpeedAndBearingD engineMath antipodalTrack ! 0) = Some 0 \<and>
   distance_km (calculateSpeedAndBearingD engineMath antipodalTrack ! 1) = None"
  using antipodal_pass by blast

text \<open>Claim C9 fails on the same track: with a \<^verbatim>\<open>NaN\<close> distance and a time difference of 10
  seconds, the tests \<^verbatim>\<open>timeDiff <= 0\<close>, \<^verbatim>\<open>distance <= 0\<close> and \<^verbatim>\<open>speedKmh > 100\<close> of
  \<^verbatim>\<open>calculateSpeed\<close> are all false, and the speed of the second point is \<^verbatim>\<open>NaN\<close>, which is
  not in the interval from 0 to 100.\<close>

theorem antipodal_speed_is_NaN:
  "speed_kmh (calculateSpeedAndBearingD engineMath antipodalTrack ! 0) = Some 0 \<and>
   speed_kmh (calculateSpeedAndBearingD engineMath antipodalTrack ! 1) = None"
  using antipodal_pass by blast

subsection \<open>The tracks on the meridian\<close>





























































end
